theory Spec2Isabelle
  imports Complex_Main
begin

section \<open>Errors\<close>

text \<open>
  Both modules throw JavaScript error objects: \<^verbatim>\<open>Error(message)\<close>, and the two subclasses
  \<^verbatim>\<open>WalletError(message, code)\<close> (utils.jsx) and \<^verbatim>\<open>MeteoraError(message, code)\<close>
  (meteoraService.js), which add a string field \<^verbatim>\<open>code\<close>. An error value is its \<^verbatim>\<open>name\<close>,
  its \<^verbatim>\<open>message\<close> and its \<^verbatim>\<open>code\<close> (absent on a plain \<^verbatim>\<open>Error\<close>).
\<close>

datatype error = Err (name: string) (message: string) (code: "string option")

definition Error :: "string \<Rightarrow> error" where
  "Error msg = Err ''Error'' msg None"

definition TypeError :: "string \<Rightarrow> error" where
  "TypeError msg = Err ''TypeError'' msg None"

definition WalletError :: "string \<Rightarrow> string \<Rightarrow> error" where
  "WalletError msg c = Err ''WalletError'' msg (Some c)"

definition MeteoraError :: "string \<Rightarrow> string \<Rightarrow> error" where
  "MeteoraError msg c = Err ''MeteoraError'' msg (Some c)"

definition WALLET_NOT_CONNECTED :: string where "WALLET_NOT_CONNECTED = ''WALLET_NOT_CONNECTED''"
definition INSUFFICIENT_BALANCE :: string where "INSUFFICIENT_BALANCE = ''INSUFFICIENT_BALANCE''"
definition TOKEN_CREATION_FAILED :: string where "TOKEN_CREATION_FAILED = ''TOKEN_CREATION_FAILED''"
definition POOL_CREATION_FAILED :: string where "POOL_CREATION_FAILED = ''POOL_CREATION_FAILED''"
definition TRANSACTION_FAILED :: string where "TRANSACTION_FAILED = ''TRANSACTION_FAILED''"


section \<open>The retry mechanism (utils.jsx, \<^verbatim>\<open>sleep\<close> and \<^verbatim>\<open>retryAsync\<close>)\<close>

text \<open>
  \<^verbatim>\<open>
  export const sleep = (ms) => new Promise(resolve => setTimeout(resolve, ms));

  export const retryAsync = async (fn, maxAttempts = 3, delayMs = 1000) => {
    let lastError;
    for (let attempt = 1; attempt <= maxAttempts; attempt++) {
      try {
        return await fn();
      } catch (error) {
        console.warn(`Attempt ${attempt} failed:`, error);
        lastError = error;
        if (attempt < maxAttempts) {
          await sleep(delayMs * attempt);
        }
      }
    }
    throw lastError;
  };
  \<close>
  The operation \<open>fn\<close> is a closure over whatever it touches; here it is a function on a
  state \<open>'x\<close> that returns the thrown value (\<open>Inl\<close>) or the resolved value (\<open>Inr\<close>) together
  with the new state. The executor's own effects are recorded in a trace, oldest first:
  \<open>Call_fn\<close> for every invocation \<^verbatim>\<open>fn()\<close> and \<open>Sleep ms\<close> for every \<^verbatim>\<open>sleep(ms)\<close>.
  The value thrown at the end is \<^verbatim>\<open>lastError\<close>, which is \<^verbatim>\<open>undefined\<close> (\<open>None\<close>) as long
  as no attempt has failed.
\<close>

datatype effect = Call_fn | Sleep int

function retryAsync_loop ::
  "('x \<Rightarrow> ('e + 'a) \<times> 'x) \<Rightarrow> int \<Rightarrow> int \<Rightarrow> int \<Rightarrow> 'e option \<Rightarrow> effect list \<Rightarrow> 'x
     \<Rightarrow> ('e option + 'a) \<times> effect list \<times> 'x"
where
  "retryAsync_loop fn maxAttempts delayMs attempt lastError tr x =
     (if attempt \<le> maxAttempts then
        (case fn x of
           (Inr v, x') \<Rightarrow> (Inr v, tr @ [Call_fn], x')
         | (Inl err, x') \<Rightarrow>
             (if attempt < maxAttempts
              then retryAsync_loop fn maxAttempts delayMs (attempt + 1) (Some err)
                     (tr @ [Call_fn, Sleep (delayMs * attempt)]) x'
              else retryAsync_loop fn maxAttempts delayMs (attempt + 1) (Some err)
                     (tr @ [Call_fn]) x'))
      else (Inl lastError, tr, x))"
  by pat_completeness auto
termination
  by (relation "measure (\<lambda>(fn, maxAttempts, delayMs, attempt, lastError, tr, x).
                  nat (maxAttempts + 1 - attempt))") auto

declare retryAsync_loop.simps [simp del]

definition retryAsync ::
  "('x \<Rightarrow> ('e + 'a) \<times> 'x) \<Rightarrow> int \<Rightarrow> int \<Rightarrow> 'x \<Rightarrow> ('e option + 'a) \<times> effect list \<times> 'x"
where
  "retryAsync fn maxAttempts delayMs x = retryAsync_loop fn maxAttempts delayMs 1 None [] x"

text \<open>The number of invocations of the operation, and the delays slept, read off a trace.\<close>

definition attempts :: "effect list \<Rightarrow> nat" where
  "attempts tr = length (filter (\<lambda>ev. ev = Call_fn) tr)"

fun sleeps :: "effect list \<Rightarrow> int list" where
  "sleeps [] = []"
| "sleeps (Call_fn # tr) = sleeps tr"
| "sleeps (Sleep ms # tr) = ms # sleeps tr"

text \<open>
  A scripted operation for concrete runs: the state is the list of outcomes still to come,
  one per call; once the script is used up the operation keeps failing with a timeout.
\<close>

definition scripted :: "(error + 'a) list \<Rightarrow> (error + 'a) \<times> (error + 'a) list" where
  "scripted script =
     (case script of [] \<Rightarrow> (Inl (Error ''timeout''), []) | r # rest \<Rightarrow> (r, rest))"


section \<open>Submitting a transaction (utils.jsx, \<^verbatim>\<open>sendAndConfirmTransaction\<close>)\<close>

text \<open>
  \<^verbatim>\<open>
  export const sendAndConfirmTransaction = async (connection, transaction, signers) => {
    try {
      const latestBlockhash = await connection.getLatestBlockhash();
      transaction.recentBlockhash = latestBlockhash.blockhash;
      transaction.feePayer = signers[0].publicKey;
      for (const signer of signers) { transaction.partialSign(signer); }
      const signature = await retryAsync(async () => {
        const sig = await connection.sendRawTransaction(transaction.serialize(), {...});
        await connection.confirmTransaction({
          signature: sig,
          blockhash: latestBlockhash.blockhash,
          lastValidBlockHeight: latestBlockhash.lastValidBlockHeight,
        });
        return sig;
      });
      return signature;
    } catch (error) {
      throw new WalletError(`Transaction failed: ${error.message}`,
                            WalletError.CODES.TRANSACTION_FAILED);
    }
  };
  \<close>
  The connection and the transaction class belong to the web3 library. They are a record of
  operations on a chain state \<open>'c\<close>, each returning what it throws (\<open>Inl\<close>) or what it
  resolves to (\<open>Inr\<close>); \<open>partialSign\<close> and \<open>serialize\<close> are the library's methods on the
  transaction. The remote calls made are logged, oldest first.
\<close>

record blockhash_info =
  blockhash :: string
  lastValidBlockHeight :: nat

record transaction =
  instructions :: "string list"
  recentBlockhash :: "string option"
  feePayer :: "string option"
  signatures :: "string list"

type_synonym signer = string  \<comment> \<open>a signer, identified by its \<^verbatim>\<open>publicKey\<close>\<close>
type_synonym raw_bytes = "nat list"

record 'c web3 =
  getLatestBlockhash :: "'c \<Rightarrow> (error + blockhash_info) \<times> 'c"
  sendRawTransaction :: "raw_bytes \<Rightarrow> 'c \<Rightarrow> (error + string) \<times> 'c"
  confirmTransaction :: "string \<Rightarrow> string \<Rightarrow> nat \<Rightarrow> 'c \<Rightarrow> (error + unit) \<times> 'c"
  partialSign :: "signer \<Rightarrow> transaction \<Rightarrow> error + transaction"
  serialize :: "transaction \<Rightarrow> error + raw_bytes"

datatype rpc =
    GetLatestBlockhash
  | SendRawTransaction raw_bytes
  | ConfirmTransaction string string nat

text \<open>The loop \<^verbatim>\<open>for (const signer of signers) transaction.partialSign(signer)\<close>.\<close>

fun partialSign_all :: "'c web3 \<Rightarrow> signer list \<Rightarrow> transaction \<Rightarrow> error + transaction" where
  "partialSign_all conn [] tx = Inr tx"
| "partialSign_all conn (s # ss) tx =
     (case partialSign conn s tx of
        Inl e \<Rightarrow> Inl e
      | Inr tx' \<Rightarrow> partialSign_all conn ss tx')"

text \<open>
  The closure passed to \<open>retryAsync\<close>. It captures the signed transaction and the block
  reference fetched before the loop; each run serializes, sends and confirms.
\<close>

definition send_and_confirm_once ::
  "'c web3 \<Rightarrow> transaction \<Rightarrow> blockhash_info \<Rightarrow> rpc list \<times> 'c \<Rightarrow> (error + string) \<times> (rpc list \<times> 'c)"
where
  "send_and_confirm_once conn tx latest st =
     (case st of (rlog, c) \<Rightarrow>
        (case serialize conn tx of
           Inl e \<Rightarrow> (Inl e, (rlog, c))
         | Inr raw \<Rightarrow>
             (case sendRawTransaction conn raw c of
                (Inl e, c') \<Rightarrow> (Inl e, (rlog @ [SendRawTransaction raw], c'))
              | (Inr sig, c') \<Rightarrow>
                  (case confirmTransaction conn sig (blockhash latest) (lastValidBlockHeight latest) c' of
                     (Inl e, c'') \<Rightarrow>
                       (Inl e, (rlog @ [SendRawTransaction raw,
                          ConfirmTransaction sig (blockhash latest) (lastValidBlockHeight latest)], c''))
                   | (Inr u, c'') \<Rightarrow>
                       (Inr sig, (rlog @ [SendRawTransaction raw,
                          ConfirmTransaction sig (blockhash latest) (lastValidBlockHeight latest)], c''))))))"

text \<open>
  The \<^verbatim>\<open>catch\<close> block: the message of the caught value is read and a \<open>WalletError\<close> is
  thrown; reading \<^verbatim>\<open>.message\<close> of \<^verbatim>\<open>undefined\<close> is itself a \<open>TypeError\<close>.
\<close>

definition transaction_failed :: "error option \<Rightarrow> error" where
  "transaction_failed caught =
     (case caught of
        None \<Rightarrow> TypeError ''Cannot read properties of undefined (reading 'message')''
      | Some e \<Rightarrow> WalletError (''Transaction failed: '' @ message e) TRANSACTION_FAILED)"

definition sendAndConfirmTransaction ::
  "'c web3 \<Rightarrow> transaction \<Rightarrow> signer list \<Rightarrow> 'c
     \<Rightarrow> (error + string) \<times> effect list \<times> rpc list \<times> 'c"
where
  "sendAndConfirmTransaction conn tx signers c =
     (case getLatestBlockhash conn c of
        (Inl e, c1) \<Rightarrow> (Inl (transaction_failed (Some e)), [], [GetLatestBlockhash], c1)
      | (Inr latest, c1) \<Rightarrow>
          (case signers of
             [] \<Rightarrow> (Inl (transaction_failed (Some (TypeError
                      ''Cannot read properties of undefined (reading 'publicKey')''))),
                    [], [GetLatestBlockhash], c1)
           | s0 # rest \<Rightarrow>
               (case partialSign_all conn signers
                       (tx\<lparr>recentBlockhash := Some (blockhash latest), feePayer := Some s0\<rparr>) of
                  Inl e \<Rightarrow> (Inl (transaction_failed (Some e)), [], [GetLatestBlockhash], c1)
                | Inr signed \<Rightarrow>
                    (case retryAsync (send_and_confirm_once conn signed latest) 3 1000
                            ([GetLatestBlockhash], c1) of
                       (Inr sig, tr, (rlog, c2)) \<Rightarrow> (Inr sig, tr, rlog, c2)
                     | (Inl caught, tr, (rlog, c2)) \<Rightarrow>
                         (Inl (transaction_failed caught), tr, rlog, c2)))))"

text \<open>The number of block-reference fetches in a log.\<close>

definition fetches :: "rpc list \<Rightarrow> nat" where
  "fetches rlog = length (filter (\<lambda>r. r = GetLatestBlockhash) rlog)"

text \<open>
  A connection for concrete runs. Its state counts the block references handed out and
  the confirmations asked for. Every fetch returns a new block reference; a confirmation
  fails with the library's expiry error on the first request and succeeds afterwards.
\<close>

record mock_chain =
  handed_out :: nat
  confirms_seen :: nat

definition mock_getLatestBlockhash :: "mock_chain \<Rightarrow> (error + blockhash_info) \<times> mock_chain" where
  "mock_getLatestBlockhash c =
     (Inr \<lparr>blockhash = replicate (Suc (handed_out c)) CHR ''h'',
           lastValidBlockHeight = 100 + handed_out c\<rparr>,
      c\<lparr>handed_out := Suc (handed_out c)\<rparr>)"

definition mock_sendRawTransaction :: "raw_bytes \<Rightarrow> mock_chain \<Rightarrow> (error + string) \<times> mock_chain" where
  "mock_sendRawTransaction raw c = (Inr (replicate (length raw) CHR ''s''), c)"

definition mock_confirmTransaction ::
  "string \<Rightarrow> string \<Rightarrow> nat \<Rightarrow> mock_chain \<Rightarrow> (error + unit) \<times> mock_chain" where
  "mock_confirmTransaction sig bh height c =
     (if confirms_seen c = 0
      then (Inl (Err ''TransactionExpiredBlockheightExceededError''
                   ''block height exceeded'' None), c\<lparr>confirms_seen := 1\<rparr>)
      else (Inr (), c\<lparr>confirms_seen := Suc (confirms_seen c)\<rparr>))"

definition mock_partialSign :: "signer \<Rightarrow> transaction \<Rightarrow> error + transaction" where
  "mock_partialSign s tx = Inr (tx\<lparr>signatures := signatures tx @ [s]\<rparr>)"

definition mock_serialize :: "transaction \<Rightarrow> error + raw_bytes" where
  "mock_serialize tx =
     (case recentBlockhash tx of
        None \<Rightarrow> Inl (Error ''Transaction recentBlockhash required'')
      | Some bh \<Rightarrow> Inr (map length (bh # signatures tx)))"

definition mock_web3 :: "mock_chain web3" where
  "mock_web3 = \<lparr>getLatestBlockhash = mock_getLatestBlockhash,
                sendRawTransaction = mock_sendRawTransaction,
                confirmTransaction = mock_confirmTransaction,
                partialSign = mock_partialSign,
                serialize = mock_serialize\<rparr>"

definition mock_tx :: transaction where
  "mock_tx = \<lparr>instructions = [''transfer''], recentBlockhash = None, feePayer = None,
              signatures = []\<rparr>"

definition mock_start :: mock_chain where
  "mock_start = \<lparr>handed_out = 0, confirms_seen = 0\<rparr>"

text \<open>
  An operation for concrete runs that throws the same error on every call and counts, in
  its state, how often it has been invoked.
\<close>

definition rejecting :: "error \<Rightarrow> nat \<Rightarrow> (error + string) \<times> nat" where
  "rejecting e calls = (Inl e, Suc calls)"

section \<open>Numbers\<close>

text \<open>
  JavaScript numbers are IEEE 754 doubles. An integer is a double when its binary expansion,
  cut after the leading 53 bits, has only zeros left; any other integer is rounded to the
  nearest such value, ties to the even significand. \<open>round_double n\<close> is that double, as
  an integer (the exponent range is left to \<open>to_double\<close>). It is what the conversion of a
  decimal literal to a number and the multiplication of two integral doubles compute.
\<close>

fun bit_length :: "nat \<Rightarrow> nat" where
  "bit_length n = (if n = 0 then 0 else Suc (bit_length (n div 2)))"

declare bit_length.simps [simp del]

definition round_double :: "int \<Rightarrow> int" where
  "round_double n =
     (let m = \<bar>n\<bar>; e = bit_length (nat m) - 53 in
      if e = 0 then n
      else
        let q = m div 2 ^ e; r = m mod 2 ^ e; half = 2 ^ (e - 1);
            q' = (if r < half then q else if half < r then q + 1
                  else if even q then q else q + 1)
        in sgn n * (q' * 2 ^ e))"

text \<open>A rounded value of magnitude \<open>2 ^ 1024\<close> or more is \<^verbatim>\<open>Infinity\<close> (\<open>None\<close>).\<close>

definition to_double :: "int \<Rightarrow> int option" where
  "to_double n = (let r = round_double n in if 2 ^ 1024 \<le> \<bar>r\<bar> then None else Some r)"

text \<open>
  \<^verbatim>\<open>10 ** d\<close> and \<^verbatim>\<open>Math.pow(10, d)\<close> for a non-negative integer \<open>d\<close>. Up to \<open>d = 22\<close> the
  power \<open>10 ^ d\<close> is a double and is the result. Beyond that the language leaves the
  result to the engine (it is only approximately \<open>10 ^ d\<close>, and \<^verbatim>\<open>Infinity\<close> from some \<open>d\<close>
  on): the engine's value is a parameter, \<open>None\<close> standing for \<^verbatim>\<open>Infinity\<close>.
\<close>

definition js_pow10 :: "(nat \<Rightarrow> int option) \<Rightarrow> nat \<Rightarrow> int option" where
  "js_pow10 engine d = (if d \<le> 22 then Some (10 ^ d) else engine d)"

text \<open>
  \<^verbatim>\<open>tokenData.decimals || 9\<close>: the left operand when it is truthy, the right one
  otherwise. A missing field (\<^verbatim>\<open>undefined\<close>, \<open>None\<close>) is falsy, and so is the number 0.
\<close>

definition or_default :: "nat option \<Rightarrow> nat \<Rightarrow> nat" where
  "or_default v d = (case v of None \<Rightarrow> d | Some n \<Rightarrow> (if n = 0 then d else n))"

definition RangeError :: "string \<Rightarrow> error" where
  "RangeError msg = Err ''RangeError'' msg None"

definition LAMPORTS_PER_SOL :: int where
  "LAMPORTS_PER_SOL = 1000000000"


section \<open>Token creation (utils.jsx, \<^verbatim>\<open>createToken\<close>)\<close>

text \<open>
  The wallet argument may be \<^verbatim>\<open>null\<close> (\<open>None\<close>) or lack a public key. The supply is an
  integral value (\<^verbatim>\<open>BigInt\<close> accepts nothing else); the decimals are a natural number
  or missing.
\<close>

record wallet =
  publicKey :: "string option"

record tokenData =
  token_name :: string
  token_symbol :: string
  token_uri :: "string option"
  token_supply :: int
  token_decimals :: "nat option"

text \<open>
  The library and network calls of \<open>createToken\<close> are made at most once each. The
  environment gives the outcome of each: what it throws or what it resolves to.
  \<open>publicKeys_valid\<close> says whether the \<^verbatim>\<open>new PublicKey(...)\<close> constructions of
  \<^verbatim>\<open>getConstants\<close> succeed.
\<close>

record token_env =
  publicKeys_valid :: bool
  getBalance_outcome :: "error + int"
  createMint_outcome :: "error + string"
  tokenAccount_outcome :: "error + string"
  createMetadata_outcome :: "error + string"
  mintTo_outcome :: "error + unit"
  engine_pow10 :: "nat \<Rightarrow> int option"

datatype token_call =
    GetBalance string
  | CreateMint string nat
  | GetOrCreateAssociatedTokenAccount string string
  | CreateMetadataAccountV3 string string string string
  | MintTo string string int

record token_created =
  mint :: string
  metadata :: string
  tokenAccount :: string
  initialSupply :: int
  created_decimals :: nat

text \<open>
  \<^verbatim>\<open>getConstants\<close>: any failure while building the constants is replaced by one error.
\<close>

definition getConstants :: "bool \<Rightarrow> error + unit" where
  "getConstants keys_valid =
     (if keys_valid then Inr () else Inl (Error ''Failed to initialize blockchain constants''))"

text \<open>
  The balance check of lines 233 to 241:
  \<^verbatim>\<open>
  const requiredBalance = 0.1; // SOL
  if (balance < requiredBalance * LAMPORTS_PER_SOL) {
    throw new WalletError(`Insufficient balance. Required: ${requiredBalance} SOL`,
                          WalletError.CODES.INSUFFICIENT_BALANCE);
  }
  \<close>
  The product \<^verbatim>\<open>0.1 * 1000000000\<close> is the double 100000000 exactly, as it is over the
  reals.
\<close>

definition requiredBalance :: real where
  "requiredBalance = 0.1"

definition check_balance :: "int \<Rightarrow> error + unit" where
  "check_balance balance =
     (if real_of_int balance < requiredBalance * real_of_int LAMPORTS_PER_SOL
      then Inl (WalletError ''Insufficient balance. Required: 0.1 SOL'' INSUFFICIENT_BALANCE)
      else Inr ())"

text \<open>
  Line 289, the amount handed to \<^verbatim>\<open>mintTo\<close>:
  \<^verbatim>\<open>BigInt(tokenData.supply) * BigInt(10 ** (tokenData.decimals || 9))\<close>.
  \<^verbatim>\<open>BigInt\<close> of \<^verbatim>\<open>Infinity\<close> throws a \<open>RangeError\<close>.
\<close>

definition supplyBigInt :: "(nat \<Rightarrow> int option) \<Rightarrow> tokenData \<Rightarrow> error + int" where
  "supplyBigInt engine td =
     (case js_pow10 engine (or_default (token_decimals td) 9) of
        None \<Rightarrow> Inl (RangeError ''The number Infinity cannot be converted to a BigInt'')
      | Some p \<Rightarrow> Inr (token_supply td * p))"

text \<open>The body of the \<^verbatim>\<open>try\<close> block, for a wallet with public key \<open>pk\<close>.\<close>

definition createToken_body ::
  "token_env \<Rightarrow> string \<Rightarrow> tokenData \<Rightarrow> (error + token_created) \<times> token_call list" where
  "createToken_body env pk td =
     (case getConstants (publicKeys_valid env) of
        Inl e \<Rightarrow> (Inl e, [])
      | Inr u \<Rightarrow>
     (case getBalance_outcome env of
        Inl e \<Rightarrow> (Inl e, [GetBalance pk])
      | Inr balance \<Rightarrow>
     (case check_balance balance of
        Inl e \<Rightarrow> (Inl e, [GetBalance pk])
      | Inr u \<Rightarrow>
     (case createMint_outcome env of
        Inl e \<Rightarrow> (Inl e, [GetBalance pk, CreateMint pk (or_default (token_decimals td) 9)])
      | Inr m \<Rightarrow>
     (case tokenAccount_outcome env of
        Inl e \<Rightarrow> (Inl e, [GetBalance pk, CreateMint pk (or_default (token_decimals td) 9),
                          GetOrCreateAssociatedTokenAccount m pk])
      | Inr acct \<Rightarrow>
     (case createMetadata_outcome env of
        Inl e \<Rightarrow> (Inl e, [GetBalance pk, CreateMint pk (or_default (token_decimals td) 9),
                          GetOrCreateAssociatedTokenAccount m pk,
                          CreateMetadataAccountV3 m (token_name td) (token_symbol td)
                            (case token_uri td of None \<Rightarrow> [] | Some u \<Rightarrow> u)])
      | Inr meta \<Rightarrow>
     (case supplyBigInt (engine_pow10 env) td of
        Inl e \<Rightarrow> (Inl e, [GetBalance pk, CreateMint pk (or_default (token_decimals td) 9),
                          GetOrCreateAssociatedTokenAccount m pk,
                          CreateMetadataAccountV3 m (token_name td) (token_symbol td)
                            (case token_uri td of None \<Rightarrow> [] | Some u \<Rightarrow> u)])
      | Inr amount \<Rightarrow>
     (case mintTo_outcome env of
        Inl e \<Rightarrow> (Inl e, [GetBalance pk, CreateMint pk (or_default (token_decimals td) 9),
                          GetOrCreateAssociatedTokenAccount m pk,
                          CreateMetadataAccountV3 m (token_name td) (token_symbol td)
                            (case token_uri td of None \<Rightarrow> [] | Some u \<Rightarrow> u),
                          MintTo m acct amount])
      | Inr u \<Rightarrow>
          (Inr \<lparr>mint = m, metadata = meta, tokenAccount = acct, initialSupply = amount,
                created_decimals = or_default (token_decimals td) 9\<rparr>,
           [GetBalance pk, CreateMint pk (or_default (token_decimals td) 9),
            GetOrCreateAssociatedTokenAccount m pk,
            CreateMetadataAccountV3 m (token_name td) (token_symbol td)
              (case token_uri td of None \<Rightarrow> [] | Some u \<Rightarrow> u),
            MintTo m acct amount])))))))))"

text \<open>
  \<open>createToken\<close>: the connectivity check stands before the \<^verbatim>\<open>try\<close>; whatever the body
  throws is caught and replaced by a \<open>WalletError\<close> with code \<open>TOKEN_CREATION_FAILED\<close>.
\<close>

definition createToken ::
  "token_env \<Rightarrow> wallet option \<Rightarrow> tokenData \<Rightarrow> (error + token_created) \<times> token_call list" where
  "createToken env w td =
     (case w of
        None \<Rightarrow> (Inl (WalletError ''Wallet not connected'' WALLET_NOT_CONNECTED), [])
      | Some wal \<Rightarrow>
          (case publicKey wal of
             None \<Rightarrow> (Inl (WalletError ''Wallet not connected'' WALLET_NOT_CONNECTED), [])
           | Some pk \<Rightarrow>
               (case createToken_body env pk td of
                  (Inl e, calls) \<Rightarrow>
                    (Inl (WalletError (''Failed to create token: '' @ message e)
                            TOKEN_CREATION_FAILED), calls)
                | (Inr res, calls) \<Rightarrow> (Inr res, calls))))"


section \<open>Token creation (meteoraService.js, \<^verbatim>\<open>createToken\<close>)\<close>

text \<open>
  Line 81, the amount handed to \<^verbatim>\<open>mintTo\<close>:
  \<^verbatim>\<open>BigInt(Math.floor(tokenData.supply * Math.pow(10, tokenData.decimals || 9)))\<close>.
  The supply is converted to a number and multiplied as a double; the product of two doubles
  is the exact product, rounded. \<^verbatim>\<open>Math.floor\<close> leaves an integral double as it is, and
  \<^verbatim>\<open>BigInt\<close> gives its exact value, or throws a \<open>RangeError\<close> on \<^verbatim>\<open>Infinity\<close> and \<^verbatim>\<open>NaN\<close>.
\<close>

definition supplyBN :: "(nat \<Rightarrow> int option) \<Rightarrow> tokenData \<Rightarrow> error + int" where
  "supplyBN engine td =
     (case to_double (token_supply td) of
        None \<Rightarrow> Inl (RangeError ''The number Infinity cannot be converted to a BigInt'')
      | Some s \<Rightarrow>
     (case js_pow10 engine (or_default (token_decimals td) 9) of
        None \<Rightarrow> Inl (RangeError ''The number Infinity cannot be converted to a BigInt'')
      | Some p \<Rightarrow>
     (case to_double (s * p) of
        None \<Rightarrow> Inl (RangeError ''The number Infinity cannot be converted to a BigInt'')
      | Some r \<Rightarrow> Inr r)))"

text \<open>
  Concrete inputs for the token operations: an environment in which every call succeeds and
  the wallet holds 1 SOL, the same with a balance one lamport short of 0.1 SOL, a token of
  supply 1 with 0 decimals, and a token of supply \<open>10 ^ 12 - 1\<close> with 9 decimals.
\<close>

definition rich_env :: token_env where
  "rich_env = \<lparr>publicKeys_valid = True,
               getBalance_outcome = Inr 1000000000,
               createMint_outcome = Inr ''Mint'',
               tokenAccount_outcome = Inr ''Acct'',
               createMetadata_outcome = Inr ''Meta'',
               mintTo_outcome = Inr (),
               engine_pow10 = (\<lambda>d. None)\<rparr>"


definition payer :: wallet where
  "payer = \<lparr>publicKey = Some ''Payer''\<rparr>"

definition unit_token :: tokenData where
  "unit_token = \<lparr>token_name = ''Unit'', token_symbol = ''UNT'', token_uri = None,
                 token_supply = 1, token_decimals = Some 0\<rparr>"

definition large_token :: tokenData where
  "large_token = \<lparr>token_name = ''Large'', token_symbol = ''LRG'', token_uri = None,
                  token_supply = 999999999999, token_decimals = Some 9\<rparr>"

section \<open>Adding liquidity (utils.jsx, \<^verbatim>\<open>addPoolLiquidity\<close>)\<close>

text \<open>
  The two amounts reach \<open>addPoolLiquidity\<close> as they are typed into the liquidity form of
  components.jsx, that is as strings; a caller may also pass numbers. An amount is an
  integral number or a string.
\<close>

datatype amount = Num int | Str string

text \<open>
  A number in general: \<^verbatim>\<open>NaN\<close>, an infinity, or a finite double given by its value.
\<close>

datatype number = NaN | NegInfinity | Finite real | PosInfinity

text \<open>
  Reading a string as a number. A string of decimal digits denotes its decimal value; with
  at most 20 digits the number is that value rounded to a double, and as a \<^verbatim>\<open>BigInt\<close> it
  is that value whatever its length. What the language makes of any other string (signs,
  fractions, exponents, white space, other radixes, \<^verbatim>\<open>NaN\<close> or a \<open>SyntaxError\<close>) is a
  parameter: \<open>engine\<close> stands for \<^verbatim>\<open>Number(s)\<close>, respectively \<^verbatim>\<open>BigInt(s)\<close>.
\<close>

definition is_digit :: "char \<Rightarrow> bool" where
  "is_digit c = (48 \<le> (of_char c :: nat) \<and> (of_char c :: nat) \<le> 57)"

definition all_digits :: "string \<Rightarrow> bool" where
  "all_digits s = (s \<noteq> [] \<and> list_all is_digit s)"

definition digits_value :: "string \<Rightarrow> int" where
  "digits_value s = foldl (\<lambda>v c. 10 * v + (int (of_char c) - 48)) 0 s"

definition to_number :: "(string \<Rightarrow> number) \<Rightarrow> string \<Rightarrow> number" where
  "to_number engine s =
     (if all_digits s \<and> length s \<le> 20
      then Finite (real_of_int (round_double (digits_value s)))
      else engine s)"

definition to_bigint :: "(string \<Rightarrow> error + int) \<Rightarrow> amount \<Rightarrow> error + int" where
  "to_bigint engine v =
     (case v of
        Num n \<Rightarrow> Inr n
      | Str s \<Rightarrow> (if all_digits s then Inr (digits_value s) else engine s))"

text \<open>
  \<^verbatim>\<open>KaminoPool.load\<close> and \<^verbatim>\<open>pool.addLiquidity\<close> run under \<open>retryAsync\<close> with three
  attempts, so the environment holds a script of outcomes for each, one per call; the
  other calls are made at most once. A loaded pool is identified by its
  \<^verbatim>\<open>state.tokenMintA\<close>. The environment also holds the two readings of strings left to
  the language.
\<close>

record liquidity_env =
  loadPool_script :: "(error + string) list"
  liquidityAccount_outcome :: "error + string"
  tokenBalance_outcome :: "error + int"
  solBalance_outcome :: "error + int"
  addLiquidity_script :: "(error + string) list"
  confirm_outcome :: "error + unit"
  engine_Number :: "string \<Rightarrow> number"
  engine_BigInt :: "string \<Rightarrow> error + int"

datatype liquidity_call =
    LoadPool string
  | GetLiquidityAccount string string
  | GetTokenAccountBalance string
  | GetSolBalance string
  | AddLiquidity string int int
  | ConfirmLiquidity string
  | Wait int

text \<open>
  The result holds the two amounts as they were passed; the code returns their
  \<^verbatim>\<open>toString()\<close>.
\<close>

record liquidity_added =
  success :: bool
  liquidity_transaction :: string
  added_tokenAmount :: amount
  added_solAmount :: amount

text \<open>
  The trace of a \<open>retryAsync\<close> run, with every run of the operation named by the call it
  makes, if it makes one.
\<close>

fun as_calls :: "liquidity_call option \<Rightarrow> effect list \<Rightarrow> liquidity_call list" where
  "as_calls c [] = []"
| "as_calls None (Call_fn # tr) = as_calls None tr"
| "as_calls (Some call) (Call_fn # tr) = call # as_calls (Some call) tr"
| "as_calls c (Sleep ms # tr) = Wait ms # as_calls c tr"

text \<open>
  The token check of lines 411 to 414, once both sides are \<^verbatim>\<open>BigInt\<close>s:
  \<^verbatim>\<open>
  if (BigInt(tokenBalance.value.amount) < BigInt(tokenAmount)) {
    throw new Error('Insufficient token balance');
  }
  \<close>
\<close>

definition check_token_balance :: "int \<Rightarrow> int \<Rightarrow> error + unit" where
  "check_token_balance tokenBalance tokenAmount =
     (if tokenBalance < tokenAmount then Inl (Error ''Insufficient token balance'')
      else Inr ())"

text \<open>
  The SOL check of lines 417 to 421:
  \<^verbatim>\<open>
  const requiredSol = solAmount + 0.01 * LAMPORTS_PER_SOL; // Add buffer for fees
  if (solBalance < requiredSol) {
    throw new Error('Insufficient SOL balance');
  }
  \<close>
  The product \<^verbatim>\<open>0.01 * 1000000000\<close> is the double 10000000 exactly. With a number on
  the left, \<^verbatim>\<open>+\<close> adds as doubles, so the sum is rounded. With a string on the left,
  \<^verbatim>\<open>+\<close> concatenates the string and the decimal digits of 10000000. The comparison of
  the balance, a number, with a string reads the string as a number; a comparison with
  \<^verbatim>\<open>NaN\<close> is false.
\<close>

datatype sum_value = NumberSum number | StringSum string

definition requiredSol :: "amount \<Rightarrow> sum_value" where
  "requiredSol solAmount =
     (case solAmount of
        Num n \<Rightarrow>
          NumberSum (case to_double (n + 10000000) of
                       None \<Rightarrow> (if n < 0 then NegInfinity else PosInfinity)
                     | Some r \<Rightarrow> Finite (real_of_int r))
      | Str s \<Rightarrow> StringSum (s @ ''10000000''))"

definition less_than :: "(string \<Rightarrow> number) \<Rightarrow> int \<Rightarrow> sum_value \<Rightarrow> bool" where
  "less_than engine solBalance required =
     (case (case required of NumberSum x \<Rightarrow> x | StringSum s \<Rightarrow> to_number engine s) of
        NaN \<Rightarrow> False
      | NegInfinity \<Rightarrow> False
      | Finite r \<Rightarrow> real_of_int solBalance < r
      | PosInfinity \<Rightarrow> True)"

definition check_sol_balance :: "(string \<Rightarrow> number) \<Rightarrow> int \<Rightarrow> amount \<Rightarrow> error + unit" where
  "check_sol_balance engine solBalance solAmount =
     (if less_than engine solBalance (requiredSol solAmount)
      then Inl (Error ''Insufficient SOL balance'')
      else Inr ())"

text \<open>
  The closure of lines 425 to 430. Its arguments \<^verbatim>\<open>BigInt(tokenAmount)\<close> and
  \<^verbatim>\<open>BigInt(solAmount)\<close> are evaluated on every run, before \<^verbatim>\<open>pool.addLiquidity\<close> is
  called; when one of them throws, the run fails without the call.
\<close>

definition addLiquidity_once ::
  "error + int \<Rightarrow> error + int \<Rightarrow> (error + string) list
     \<Rightarrow> (error + string) \<times> (error + string) list" where
  "addLiquidity_once tokenBig solBig script =
     (case tokenBig of
        Inl e \<Rightarrow> (Inl e, script)
      | Inr t \<Rightarrow> (case solBig of Inl e \<Rightarrow> (Inl e, script) | Inr s \<Rightarrow> scripted script))"

definition addLiquidity_call ::
  "string \<Rightarrow> error + int \<Rightarrow> error + int \<Rightarrow> liquidity_call option" where
  "addLiquidity_call pk tokenBig solBig =
     (case tokenBig of
        Inl e \<Rightarrow> None
      | Inr t \<Rightarrow> (case solBig of Inl e \<Rightarrow> None | Inr s \<Rightarrow> Some (AddLiquidity pk t s)))"

text \<open>The body of the \<^verbatim>\<open>try\<close> block, for a wallet with public key \<open>pk\<close>.\<close>

definition addPoolLiquidity_body ::
  "liquidity_env \<Rightarrow> string \<Rightarrow> string \<Rightarrow> amount \<Rightarrow> amount
     \<Rightarrow> (error option + liquidity_added) \<times> liquidity_call list" where
  "addPoolLiquidity_body env pk poolAddress tokenAmount solAmount =
     (case retryAsync scripted 3 1000 (loadPool_script env) of
        (Inl caught, tr1, rest1) \<Rightarrow> (Inl caught, as_calls (Some (LoadPool poolAddress)) tr1)
      | (Inr tokenMintA, tr1, rest1) \<Rightarrow>
     (case liquidityAccount_outcome env of
        Inl e \<Rightarrow> (Inl (Some e), as_calls (Some (LoadPool poolAddress)) tr1
                     @ [GetLiquidityAccount tokenMintA pk])
      | Inr acct \<Rightarrow>
     (case tokenBalance_outcome env of
        Inl e \<Rightarrow> (Inl (Some e), as_calls (Some (LoadPool poolAddress)) tr1
                     @ [GetLiquidityAccount tokenMintA pk, GetTokenAccountBalance acct])
      | Inr tokenBalance \<Rightarrow>
     (case to_bigint (engine_BigInt env) tokenAmount of
        Inl e \<Rightarrow> (Inl (Some e), as_calls (Some (LoadPool poolAddress)) tr1
                     @ [GetLiquidityAccount tokenMintA pk, GetTokenAccountBalance acct])
      | Inr tokenBig \<Rightarrow>
     (case check_token_balance tokenBalance tokenBig of
        Inl e \<Rightarrow> (Inl (Some e), as_calls (Some (LoadPool poolAddress)) tr1
                     @ [GetLiquidityAccount tokenMintA pk, GetTokenAccountBalance acct])
      | Inr u \<Rightarrow>
     (case solBalance_outcome env of
        Inl e \<Rightarrow> (Inl (Some e), as_calls (Some (LoadPool poolAddress)) tr1
                     @ [GetLiquidityAccount tokenMintA pk, GetTokenAccountBalance acct,
                        GetSolBalance pk])
      | Inr solBalance \<Rightarrow>
     (case check_sol_balance (engine_Number env) solBalance solAmount of
        Inl e \<Rightarrow> (Inl (Some e), as_calls (Some (LoadPool poolAddress)) tr1
                     @ [GetLiquidityAccount tokenMintA pk, GetTokenAccountBalance acct,
                        GetSolBalance pk])
      | Inr u \<Rightarrow>
     (case retryAsync
             (addLiquidity_once (Inr tokenBig) (to_bigint (engine_BigInt env) solAmount))
             3 1000 (addLiquidity_script env) of
        (Inl caught, tr2, rest2) \<Rightarrow>
          (Inl caught, as_calls (Some (LoadPool poolAddress)) tr1
             @ [GetLiquidityAccount tokenMintA pk, GetTokenAccountBalance acct, GetSolBalance pk]
             @ as_calls (addLiquidity_call pk (Inr tokenBig)
                           (to_bigint (engine_BigInt env) solAmount)) tr2)
      | (Inr tx, tr2, rest2) \<Rightarrow>
     (case confirm_outcome env of
        Inl e \<Rightarrow>
          (Inl (Some e), as_calls (Some (LoadPool poolAddress)) tr1
             @ [GetLiquidityAccount tokenMintA pk, GetTokenAccountBalance acct, GetSolBalance pk]
             @ as_calls (addLiquidity_call pk (Inr tokenBig)
                           (to_bigint (engine_BigInt env) solAmount)) tr2
             @ [ConfirmLiquidity tx])
      | Inr u \<Rightarrow>
          (Inr \<lparr>success = True, liquidity_transaction = tx, added_tokenAmount = tokenAmount,
                added_solAmount = solAmount\<rparr>,
           as_calls (Some (LoadPool poolAddress)) tr1
             @ [GetLiquidityAccount tokenMintA pk, GetTokenAccountBalance acct, GetSolBalance pk]
             @ as_calls (addLiquidity_call pk (Inr tokenBig)
                           (to_bigint (engine_BigInt env) solAmount)) tr2
             @ [ConfirmLiquidity tx]))))))))))"

definition liquidity_failed :: "error option \<Rightarrow> error" where
  "liquidity_failed caught =
     (case caught of
        None \<Rightarrow> TypeError ''Cannot read properties of undefined (reading 'message')''
      | Some e \<Rightarrow> WalletError (''Failed to add liquidity: '' @ message e) TRANSACTION_FAILED)"

definition addPoolLiquidity ::
  "liquidity_env \<Rightarrow> wallet option \<Rightarrow> string \<Rightarrow> amount \<Rightarrow> amount
     \<Rightarrow> (error + liquidity_added) \<times> liquidity_call list" where
  "addPoolLiquidity env w poolAddress tokenAmount solAmount =
     (case w of
        None \<Rightarrow> (Inl (WalletError ''Wallet not connected'' WALLET_NOT_CONNECTED), [])
      | Some wal \<Rightarrow>
          (case publicKey wal of
             None \<Rightarrow> (Inl (WalletError ''Wallet not connected'' WALLET_NOT_CONNECTED), [])
           | Some pk \<Rightarrow>
               (case addPoolLiquidity_body env pk poolAddress tokenAmount solAmount of
                  (Inl caught, calls) \<Rightarrow> (Inl (liquidity_failed caught), calls)
                | (Inr res, calls) \<Rightarrow> (Inr res, calls))))"

text \<open>
  A concrete environment: the pool loads at once, the wallet holds 100 base units of the
  token and 5 SOL, and the transaction is accepted and confirmed. Strings other than
  decimal digits are not numbers in it.
\<close>

definition funded_env :: liquidity_env where
  "funded_env = \<lparr>loadPool_script = [Inr ''MintA''],
                 liquidityAccount_outcome = Inr ''AcctA'',
                 tokenBalance_outcome = Inr 100,
                 solBalance_outcome = Inr 5000000000,
                 addLiquidity_script = [Inr ''Tx''],
                 confirm_outcome = Inr (),
                 engine_Number = (\<lambda>s. NaN),
                 engine_BigInt = (\<lambda>s. Inl (Err ''SyntaxError''
                                    ''Cannot convert the string to a BigInt'' None))\<rparr>"


section \<open>Pool creation (utils.jsx, \<^verbatim>\<open>createMeteoraPool\<close>)\<close>

text \<open>
  The pool configuration: the initial price is a number, missing (\<^verbatim>\<open>undefined\<close>) or
  \<^verbatim>\<open>NaN\<close>; the last two are \<open>None\<close>, and both are falsy. \<^verbatim>\<open>market.createPool\<close> runs
  under \<open>retryAsync\<close> with three attempts, so the environment holds a script of its
  outcomes; the other calls are made at most once.
\<close>

record poolConfig =
  initialPrice :: "real option"
  feeBps :: "nat option"
  tickSpacing :: "nat option"

record created_pool =
  created_address :: string
  createPoolTx :: string

record pool_env =
  constants_valid :: bool
  loadMarket_outcome :: "error + unit"
  tokenMintKey_outcome :: "error + string"
  createPool_script :: "(error + created_pool) list"
  confirmPool_outcome :: "error + unit"

datatype pool_call =
    LoadMarket
  | CreatePool string nat nat real
  | ConfirmPool string
  | PoolWait int

record pool_created =
  poolAddress :: string
  pool_tokenMintA :: string
  pool_tokenMintB :: string
  pool_initialPrice :: real
  pool_feeBps :: nat
  pool_tickSpacing :: nat

definition SOL_MINT :: string where
  "SOL_MINT = ''So11111111111111111111111111111111111111112''"

definition DEFAULT_FEE_BPS :: nat where "DEFAULT_FEE_BPS = 30"
definition DEFAULT_TICK_SPACING :: nat where "DEFAULT_TICK_SPACING = 64"

fun pool_calls :: "pool_call \<Rightarrow> effect list \<Rightarrow> pool_call list" where
  "pool_calls c [] = []"
| "pool_calls c (Call_fn # tr) = c # pool_calls c tr"
| "pool_calls c (Sleep ms # tr) = PoolWait ms # pool_calls c tr"

text \<open>
  The price validation of lines 342 to 345, which stands after the market has been loaded:
  \<^verbatim>\<open>
  if (!poolConfig.initialPrice || poolConfig.initialPrice <= 0) {
    throw new Error('Initial price must be greater than 0');
  }
  \<close>
\<close>

definition validate_initialPrice :: "real option \<Rightarrow> error + real" where
  "validate_initialPrice price =
     (case price of
        None \<Rightarrow> Inl (Error ''Initial price must be greater than 0'')
      | Some p \<Rightarrow> (if p = 0 \<or> p \<le> 0 then Inl (Error ''Initial price must be greater than 0'')
                  else Inr p))"

text \<open>The body of the \<^verbatim>\<open>try\<close> block.\<close>

definition createMeteoraPool_body ::
  "pool_env \<Rightarrow> string \<Rightarrow> poolConfig \<Rightarrow> (error option + pool_created) \<times> pool_call list" where
  "createMeteoraPool_body env tokenMint cfg =
     (case getConstants (constants_valid env) of
        Inl e \<Rightarrow> (Inl (Some e), [])
      | Inr u \<Rightarrow>
     (case loadMarket_outcome env of
        Inl e \<Rightarrow> (Inl (Some e), [LoadMarket])
      | Inr market \<Rightarrow>
     (case validate_initialPrice (initialPrice cfg) of
        Inl e \<Rightarrow> (Inl (Some e), [LoadMarket])
      | Inr price \<Rightarrow>
     (case tokenMintKey_outcome env of
        Inl e \<Rightarrow> (Inl (Some e), [LoadMarket])
      | Inr mintA \<Rightarrow>
     (case retryAsync scripted 3 1000 (createPool_script env) of
        (Inl caught, tr, rest) \<Rightarrow>
          (Inl caught, LoadMarket #
             pool_calls (CreatePool mintA (or_default (feeBps cfg) DEFAULT_FEE_BPS)
                           (or_default (tickSpacing cfg) DEFAULT_TICK_SPACING) price) tr)
      | (Inr pool, tr, rest) \<Rightarrow>
     (case confirmPool_outcome env of
        Inl e \<Rightarrow>
          (Inl (Some e), LoadMarket #
             pool_calls (CreatePool mintA (or_default (feeBps cfg) DEFAULT_FEE_BPS)
                           (or_default (tickSpacing cfg) DEFAULT_TICK_SPACING) price) tr
             @ [ConfirmPool (createPoolTx pool)])
      | Inr u \<Rightarrow>
          (Inr \<lparr>poolAddress = created_address pool, pool_tokenMintA = tokenMint,
                pool_tokenMintB = SOL_MINT, pool_initialPrice = price,
                pool_feeBps = or_default (feeBps cfg) DEFAULT_FEE_BPS,
                pool_tickSpacing = or_default (tickSpacing cfg) DEFAULT_TICK_SPACING\<rparr>,
           LoadMarket #
             pool_calls (CreatePool mintA (or_default (feeBps cfg) DEFAULT_FEE_BPS)
                           (or_default (tickSpacing cfg) DEFAULT_TICK_SPACING) price) tr
             @ [ConfirmPool (createPoolTx pool)])))))))"

definition pool_creation_failed :: "error option \<Rightarrow> error" where
  "pool_creation_failed caught =
     (case caught of
        None \<Rightarrow> TypeError ''Cannot read properties of undefined (reading 'message')''
      | Some e \<Rightarrow> WalletError (''Failed to create pool: '' @ message e) POOL_CREATION_FAILED)"

definition createMeteoraPool ::
  "pool_env \<Rightarrow> wallet option \<Rightarrow> string \<Rightarrow> poolConfig
     \<Rightarrow> (error + pool_created) \<times> pool_call list" where
  "createMeteoraPool env w tokenMint cfg =
     (case w of
        None \<Rightarrow> (Inl (WalletError ''Wallet not connected'' WALLET_NOT_CONNECTED), [])
      | Some wal \<Rightarrow>
          (case publicKey wal of
             None \<Rightarrow> (Inl (WalletError ''Wallet not connected'' WALLET_NOT_CONNECTED), [])
           | Some pk \<Rightarrow>
               (case createMeteoraPool_body env tokenMint cfg of
                  (Inl caught, calls) \<Rightarrow> (Inl (pool_creation_failed caught), calls)
                | (Inr res, calls) \<Rightarrow> (Inr res, calls))))"

text \<open>A concrete environment in which every call succeeds, and a configuration of price 0.\<close>

definition market_env :: pool_env where
  "market_env = \<lparr>constants_valid = True,
                 loadMarket_outcome = Inr (),
                 tokenMintKey_outcome = Inr ''Mint'',
                 createPool_script = [Inr \<lparr>created_address = ''Pool'', createPoolTx = ''Tx''\<rparr>],
                 confirmPool_outcome = Inr ()\<rparr>"

definition zero_price :: poolConfig where
  "zero_price = \<lparr>initialPrice = Some 0, feeBps = None, tickSpacing = None\<rparr>"

section \<open>Market statistics (meteoraService.js, \<^verbatim>\<open>getMarketStats\<close>)\<close>

text \<open>
  \<^verbatim>\<open>
  export const getMarketStats = async () => {
    try {
      const market = await KaminoMarket.load(connection, METEORA_PROGRAM_ID);
      const pools = await market.getAllPools();
      const poolStats = await Promise.all(
        pools.map(async (pool) => {
          try {
            const state = await pool.getPoolState();
            return { address: pool.address.toString(), tokenMintA: ..., ..., rewardRate: ... };
          } catch {
            return null;
          }
        })
      );
      return poolStats.filter(stats => stats !== null);
    } catch (error) {
      throw new MeteoraError(`Failed to get market stats: ${error.message}`,
                             'MARKET_STATS_FAILED');
    }
  };
  \<close>
  A discovered pool is its address together with the outcome of reading its state. The
  callbacks never reject, so \<^verbatim>\<open>Promise.all\<close> resolves to their results in the order of
  \<open>pools\<close>; \<^verbatim>\<open>null\<close> is \<open>None\<close>.
\<close>

record pool_state =
  state_tokenMintA :: string
  state_tokenMintB :: string
  state_currentPrice :: real
  state_volume24h :: real
  state_tvl :: real
  state_fee :: real
  state_rewardRate :: real

record market_pool =
  pool_address :: string
  getPoolState_outcome :: "error + pool_state"

record pool_stats =
  stats_address :: string
  stats_tokenMintA :: string
  stats_tokenMintB :: string
  stats_price :: real
  stats_volume24h :: real
  stats_tvl :: real
  stats_fee :: real
  stats_rewardRate :: real

record stats_env =
  statsMarket_outcome :: "error + unit"
  getAllPools_outcome :: "error + market_pool list"

text \<open>The object built from a pool and its state.\<close>

definition stats_of :: "string \<Rightarrow> pool_state \<Rightarrow> pool_stats" where
  "stats_of addr st =
     \<lparr>stats_address = addr,
      stats_tokenMintA = state_tokenMintA st,
      stats_tokenMintB = state_tokenMintB st,
      stats_price = state_currentPrice st,
      stats_volume24h = state_volume24h st,
      stats_tvl = state_tvl st,
      stats_fee = state_fee st,
      stats_rewardRate = state_rewardRate st\<rparr>"

text \<open>The callback mapped over the pools, with its own \<^verbatim>\<open>try\<close> and \<^verbatim>\<open>catch\<close>.\<close>

definition pool_stats_or_null :: "market_pool \<Rightarrow> pool_stats option" where
  "pool_stats_or_null pool =
     (case getPoolState_outcome pool of
        Inl e \<Rightarrow> None
      | Inr st \<Rightarrow> Some (stats_of (pool_address pool) st))"

definition market_stats_failed :: "error \<Rightarrow> error" where
  "market_stats_failed e =
     MeteoraError (''Failed to get market stats: '' @ message e) ''MARKET_STATS_FAILED''"

definition getMarketStats :: "stats_env \<Rightarrow> error + pool_stats list" where
  "getMarketStats env =
     (case statsMarket_outcome env of
        Inl e \<Rightarrow> Inl (market_stats_failed e)
      | Inr market \<Rightarrow>
          (case getAllPools_outcome env of
             Inl e \<Rightarrow> Inl (market_stats_failed e)
           | Inr pools \<Rightarrow>
               Inr (map the (filter (\<lambda>stats. stats \<noteq> None) (map pool_stats_or_null pools)))))"

text \<open>Three concrete pools: the states of A and C can be read, reading B throws.\<close>

definition state_A :: pool_state where
  "state_A = \<lparr>state_tokenMintA = ''MintA'', state_tokenMintB = ''SOL'', state_currentPrice = 2,
              state_volume24h = 10, state_tvl = 100, state_fee = 3, state_rewardRate = 1\<rparr>"

definition state_C :: pool_state where
  "state_C = \<lparr>state_tokenMintA = ''MintC'', state_tokenMintB = ''SOL'', state_currentPrice = 5,
              state_volume24h = 20, state_tvl = 200, state_fee = 3, state_rewardRate = 0\<rparr>"

definition pool_A :: market_pool where
  "pool_A = \<lparr>pool_address = ''A'', getPoolState_outcome = Inr state_A\<rparr>"

definition pool_B :: market_pool where
  "pool_B = \<lparr>pool_address = ''B'', getPoolState_outcome = Inl (Error ''account not found'')\<rparr>"

definition pool_C :: market_pool where
  "pool_C = \<lparr>pool_address = ''C'', getPoolState_outcome = Inr state_C\<rparr>"

definition three_pools :: stats_env where
  "three_pools = \<lparr>statsMarket_outcome = Inr (),
                  getAllPools_outcome = Inr [pool_A, pool_B, pool_C]\<rparr>"


section \<open>Trade history (meteoraService.js, \<^verbatim>\<open>getPool\<close> and \<^verbatim>\<open>getTradeHistory\<close>)\<close>

text \<open>
  \<^verbatim>\<open>
  export const getTradeHistory = async (poolAddress, startTime) => {
    try {
      const pool = await getPool(poolAddress);
      const trades = await pool.getTradeHistory(startTime);
      return trades.map(trade => ({
        timestamp: trade.timestamp, price: trade.price, amount: trade.amount,
        side: trade.side, fee: trade.fee
      }));
    } catch (error) {
      throw new MeteoraError(`Failed to get trade history: ${error.message}`,
                             'TRADE_HISTORY_FAILED');
    }
  };
  \<close>
  The environment gives the outcome of \<^verbatim>\<open>KaminoPool.load\<close> and of the pool's
  \<^verbatim>\<open>getTradeHistory(startTime)\<close>. A trade of the pool may carry more fields than the
  five that are copied.
\<close>

record trade =
  timestamp :: int
  trade_price :: real
  trade_amount :: real
  trade_side :: string
  trade_fee :: real

definition getPool :: "error + 'p \<Rightarrow> error + 'p" where
  "getPool load_outcome =
     (case load_outcome of
        Inl e \<Rightarrow> Inl (MeteoraError (''Failed to load pool: '' @ message e) ''POOL_LOAD_FAILED'')
      | Inr pool \<Rightarrow> Inr pool)"

definition copy_trade :: "'a trade_scheme \<Rightarrow> trade" where
  "copy_trade t =
     \<lparr>timestamp = timestamp t, trade_price = trade_price t, trade_amount = trade_amount t,
      trade_side = trade_side t, trade_fee = trade_fee t\<rparr>"

definition trade_history_failed :: "error \<Rightarrow> error" where
  "trade_history_failed e =
     MeteoraError (''Failed to get trade history: '' @ message e) ''TRADE_HISTORY_FAILED''"

definition getTradeHistory ::
  "error + unit \<Rightarrow> (int \<Rightarrow> error + 'a trade_scheme list) \<Rightarrow> int \<Rightarrow> error + trade list" where
  "getTradeHistory load_outcome pool_getTradeHistory startTime =
     (case getPool load_outcome of
        Inl e \<Rightarrow> Inl (trade_history_failed e)
      | Inr pool \<Rightarrow>
          (case pool_getTradeHistory startTime of
             Inl e \<Rightarrow> Inl (trade_history_failed e)
           | Inr trades \<Rightarrow> Inr (map copy_trade trades)))"

text \<open>
  The other reader of the trade history, the price chart of components.jsx, sorts what the
  pool returns:
  \<^verbatim>\<open>
  const trades = await pool.getTradeHistory(startTime);
  const chartData = trades
    .map(trade => ({ time: trade.timestamp, price: trade.price, volume: trade.amount }))
    .sort((a, b) => a.time - b.time);
  \<close>
  \<^verbatim>\<open>Array.prototype.sort\<close> is stable, as \<open>sort_key\<close> is.
\<close>

record chart_point =
  point_time :: int
  point_price :: real
  point_volume :: real

definition chart_point_of :: "'a trade_scheme \<Rightarrow> chart_point" where
  "chart_point_of t =
     \<lparr>point_time = timestamp t, point_price = trade_price t, point_volume = trade_amount t\<rparr>"

definition chartData :: "'a trade_scheme list \<Rightarrow> chart_point list" where
  "chartData trades = sort_key point_time (map chart_point_of trades)"

text \<open>A pool that reports two trades, the later one first.\<close>

definition late_trade :: trade where
  "late_trade = \<lparr>timestamp = 2000, trade_price = 5, trade_amount = 1, trade_side = ''buy'',
                 trade_fee = 0\<rparr>"

definition early_trade :: trade where
  "early_trade = \<lparr>timestamp = 1000, trade_price = 4, trade_amount = 2, trade_side = ''sell'',
                  trade_fee = 0\<rparr>"

definition newest_first :: "int \<Rightarrow> error + trade list" where
  "newest_first startTime = Inr (filter (\<lambda>t. startTime \<le> timestamp t) [late_trade, early_trade])"

section \<open>Form validation (utils.jsx, \<^verbatim>\<open>validateTokenData\<close>, lines 626 to 632)\<close>

text \<open>
  The two checks on the numbers of the form:
  \<^verbatim>\<open>
  if (!tokenData.supply || isNaN(tokenData.supply) || tokenData.supply <= 0) {
    errors.supply = 'Supply must be a positive number';
  }
  if (!tokenData.decimals || isNaN(tokenData.decimals) || tokenData.decimals < 0
      || tokenData.decimals > 9) {
    errors.decimals = 'Decimals must be between 0 and 9';
  }
  \<close>
  Each yields the message it stores, or \<open>None\<close>. An integral supply and a natural number of
  decimals are never \<^verbatim>\<open>NaN\<close>, and the decimals are never negative.
\<close>

definition validate_supply :: "int \<Rightarrow> string option" where
  "validate_supply s =
     (if s = 0 \<or> s \<le> 0 then Some ''Supply must be a positive number'' else None)"

definition validate_decimals :: "nat option \<Rightarrow> string option" where
  "validate_decimals d =
     (case d of
        None \<Rightarrow> Some ''Decimals must be between 0 and 9''
      | Some n \<Rightarrow> (if n = 0 \<or> 9 < n then Some ''Decimals must be between 0 and 9'' else None))"


section \<open>Properties of the retry mechanism\<close>

lemmas error_defs = Error_def TypeError_def WalletError_def MeteoraError_def


lemma sleeps_append: "sleeps (tr @ tr') = sleeps tr @ sleeps tr'"
  by (induction tr rule: sleeps.induct) simp_all

lemma attempts_append: "attempts (tr @ tr') = attempts tr + attempts tr'"
  by (simp add: attempts_def)

lemma retryAsync_loop_exit:
  "maxAttempts < attempt \<Longrightarrow>
   retryAsync_loop fn maxAttempts delayMs attempt lastError tr x = (Inl lastError, tr, x)"
  by (simp add: retryAsync_loop.simps)

lemma retryAsync_loop_success:
  "attempt \<le> maxAttempts \<Longrightarrow> fn x = (Inr v, x') \<Longrightarrow>
   retryAsync_loop fn maxAttempts delayMs attempt lastError tr x = (Inr v, tr @ [Call_fn], x')"
  by (simp add: retryAsync_loop.simps)

lemma retryAsync_loop_retry:
  "attempt < maxAttempts \<Longrightarrow> fn x = (Inl err, x') \<Longrightarrow>
   retryAsync_loop fn maxAttempts delayMs attempt lastError tr x =
   retryAsync_loop fn maxAttempts delayMs (attempt + 1) (Some err)
     (tr @ [Call_fn, Sleep (delayMs * attempt)]) x'"
  by (simp add: retryAsync_loop.simps)

lemma retryAsync_loop_last:
  "fn x = (Inl err, x') \<Longrightarrow>
   retryAsync_loop fn maxAttempts delayMs maxAttempts lastError tr x =
   (Inl (Some err), tr @ [Call_fn], x')"
  by (simp add: retryAsync_loop.simps [of fn maxAttempts delayMs maxAttempts]
        retryAsync_loop_exit)

text \<open>
  C4. With \<open>maxAttempts = 3\<close>, an operation that fails on its first two calls and succeeds
  on the third makes \<open>retryAsync\<close> return the success value after exactly three calls and
  exactly two sleeps, of \<open>delayMs * 1\<close> and then \<open>delayMs * 2\<close> (linear backoff).
\<close>

theorem retryAsync_two_failures_then_success:
  assumes "fn x0 = (Inl e1, x1)" and "fn x1 = (Inl e2, x2)" and "fn x2 = (Inr v, x3)"
  shows "retryAsync fn 3 delayMs x0 =
           (Inr v, [Call_fn, Sleep (delayMs * 1), Call_fn, Sleep (delayMs * 2), Call_fn], x3)
       \<and> sleeps (fst (snd (retryAsync fn 3 delayMs x0))) = [delayMs * 1, delayMs * 2]
       \<and> attempts (fst (snd (retryAsync fn 3 delayMs x0))) = 3"
proof -
  have "retryAsync fn 3 delayMs x0 =
          retryAsync_loop fn 3 delayMs 2 (Some e1) [Call_fn, Sleep (delayMs * 1)] x1"
    unfolding retryAsync_def using retryAsync_loop_retry [of 1 3 fn x0 e1 x1] assms(1) by simp
  also have "\<dots> = retryAsync_loop fn 3 delayMs 3 (Some e2)
                    [Call_fn, Sleep (delayMs * 1), Call_fn, Sleep (delayMs * 2)] x2"
    using retryAsync_loop_retry [of 2 3 fn x1 e2 x2] assms(2) by simp
  also have "\<dots> = (Inr v, [Call_fn, Sleep (delayMs * 1), Call_fn, Sleep (delayMs * 2), Call_fn], x3)"
    using retryAsync_loop_success [of 3 3 fn x2 v x3] assms(3) by simp
  finally have run: "retryAsync fn 3 delayMs x0 =
      (Inr v, [Call_fn, Sleep (delayMs * 1), Call_fn, Sleep (delayMs * 2), Call_fn], x3)" .
  then show ?thesis
    by (simp add: attempts_def)
qed

theorem retryAsync_two_failures_then_success_witness:
  "scripted [Inl (Error ''node busy''), Inl (Error ''timeout''), Inr (7::nat)]
     = (Inl (Error ''node busy''), [Inl (Error ''timeout''), Inr 7])
   \<and> scripted [Inl (Error ''timeout''), Inr (7::nat)] = (Inl (Error ''timeout''), [Inr 7])
   \<and> scripted [Inr (7::nat)] = (Inr 7, [])
   \<and> retryAsync scripted 3 1000 [Inl (Error ''node busy''), Inl (Error ''timeout''), Inr (7::nat)]
     = (Inr 7, [Call_fn, Sleep 1000, Call_fn, Sleep 2000, Call_fn], [])
   \<and> sleeps (fst (snd (retryAsync scripted 3 1000
         [Inl (Error ''node busy''), Inl (Error ''timeout''), Inr (7::nat)]))) = [1000, 2000]
   \<and> attempts (fst (snd (retryAsync scripted 3 1000
         [Inl (Error ''node busy''), Inl (Error ''timeout''), Inr (7::nat)]))) = 3"
proof -
  have h1: "scripted [Inl (Error ''node busy''), Inl (Error ''timeout''), Inr (7::nat)]
     = (Inl (Error ''node busy''), [Inl (Error ''timeout''), Inr 7])"
    by (simp add: scripted_def)
  have h2: "scripted [Inl (Error ''timeout''), Inr (7::nat)] = (Inl (Error ''timeout''), [Inr 7])"
    by (simp add: scripted_def)
  have h3: "scripted [Inr (7::nat)] = (Inr 7, [])"
    by (simp add: scripted_def)
  show ?thesis
    using retryAsync_two_failures_then_success [OF h1 h2 h3, of 1000] h1 h2 h3
    by (simp add: attempts_def)
qed

text \<open>
  C10. Called with \<open>maxAttempts < 1\<close>, \<open>retryAsync\<close> never invokes the operation (the loop
  body is not entered), never sleeps, leaves the state untouched and throws \<^verbatim>\<open>lastError\<close>,
  which is still \<^verbatim>\<open>undefined\<close>: neither an error object nor a result of the operation.
\<close>

theorem retryAsync_nonpositive_maxAttempts:
  assumes "maxAttempts < 1"
  shows "retryAsync fn maxAttempts delayMs x = (Inl None, [], x)
       \<and> attempts (fst (snd (retryAsync fn maxAttempts delayMs x))) = 0"
  using assms by (simp add: retryAsync_def retryAsync_loop_exit attempts_def)

theorem retryAsync_nonpositive_maxAttempts_witness:
  "(0::int) < 1
   \<and> retryAsync scripted 0 1000 [Inr (7::nat)] = (Inl None, [], [Inr 7])
   \<and> attempts (fst (snd (retryAsync scripted 0 1000 [Inr (7::nat)]))) = 0"
proof -
  have h: "(0::int) < 1" by simp
  show ?thesis
    using retryAsync_nonpositive_maxAttempts [OF h, of scripted 1000 "[Inr (7::nat)]"]
    by (simp add: attempts_def)
qed

lemma retryAsync_loop_all_fail:
  "(\<And>x. fst (fn x) = Inl e) \<Longrightarrow> attempt \<le> maxAttempts \<Longrightarrow>
   fst (retryAsync_loop fn maxAttempts delayMs attempt lastError tr x) = Inl (Some e)
   \<and> attempts (fst (snd (retryAsync_loop fn maxAttempts delayMs attempt lastError tr x)))
       = attempts tr + nat (maxAttempts + 1 - attempt)
   \<and> sleeps (fst (snd (retryAsync_loop fn maxAttempts delayMs attempt lastError tr x)))
       = sleeps tr @ map (\<lambda>k. delayMs * k) [attempt..maxAttempts - 1]"
proof (induction fn maxAttempts delayMs attempt lastError tr x rule: retryAsync_loop.induct)
  case (1 fn maxAttempts delayMs attempt lastError tr x)
  obtain x' where fx: "fn x = (Inl e, x')"
    using "1.prems"(1) [of x] by (cases "fn x") auto
  show ?case
  proof (cases "attempt < maxAttempts")
    case True
    have le: "attempt + 1 \<le> maxAttempts" using True by simp
    have step: "retryAsync_loop fn maxAttempts delayMs attempt lastError tr x =
       retryAsync_loop fn maxAttempts delayMs (attempt + 1) (Some e)
         (tr @ [Call_fn, Sleep (delayMs * attempt)]) x'"
      using True fx by (rule retryAsync_loop_retry)
    have up: "[attempt..maxAttempts - 1] = attempt # [attempt + 1..maxAttempts - 1]"
      using True by (simp add: upto_rec1)
    show ?thesis
      using "1.IH"(1) [OF "1.prems"(2) fx [symmetric] refl True "1.prems"(1) le] True
      unfolding step by (simp add: attempts_def sleeps_append up)
  next
    case False
    with "1.prems"(2) have eq: "attempt = maxAttempts" by simp
    show ?thesis
      using retryAsync_loop_last [of fn x e x' maxAttempts delayMs lastError tr] fx
      unfolding eq by (simp add: attempts_def sleeps_append)
  qed
qed

lemma rejecting_run:
  "retryAsync (rejecting e) 3 1000 0
     = (Inl (Some e), [Call_fn, Sleep 1000, Call_fn, Sleep 2000, Call_fn], 3)"
  by (simp add: retryAsync_def retryAsync_loop.simps rejecting_def)

text \<open>
  C3, as stated, fails. \<open>retryAsync\<close> never looks at the error it catches: an operation
  that rejects every call with an insufficient-balance error (a terminal failure) is
  invoked three times under \<open>maxAttempts = 3\<close>, not once, with both backoff sleeps in
  between.
\<close>

theorem retryAsync_terminal_failure_counterexample:
  "attempts (fst (snd (retryAsync
      (rejecting (WalletError ''Insufficient balance'' INSUFFICIENT_BALANCE)) 3 1000 0))) = 3
   \<and> attempts (fst (snd (retryAsync
      (rejecting (WalletError ''Insufficient balance'' INSUFFICIENT_BALANCE)) 3 1000 0))) \<noteq> 1
   \<and> snd (snd (retryAsync
      (rejecting (WalletError ''Insufficient balance'' INSUFFICIENT_BALANCE)) 3 1000 0)) = 3
   \<and> sleeps (fst (snd (retryAsync
      (rejecting (WalletError ''Insufficient balance'' INSUFFICIENT_BALANCE)) 3 1000 0)))
      = [1000, 2000]"
  by (simp add: rejecting_run attempts_def)

text \<open>
  C3, amended. \<open>retryAsync\<close> retries every failure, whatever its kind: with
  \<open>maxAttempts \<ge> 1\<close>, an operation that fails with \<open>e\<close> on every call is invoked exactly
  \<open>maxAttempts\<close> times, with a sleep of \<open>delayMs * k\<close> after the \<open>k\<close>-th failure for
  \<open>k = 1, \<dots>, maxAttempts - 1\<close>, and \<open>e\<close> is thrown at the end.
\<close>

theorem retryAsync_retries_every_failure:
  assumes "\<forall>x. fst (fn x) = Inl e" and "1 \<le> maxAttempts"
  shows "fst (retryAsync fn maxAttempts delayMs x) = Inl (Some e)
       \<and> attempts (fst (snd (retryAsync fn maxAttempts delayMs x))) = nat maxAttempts
       \<and> sleeps (fst (snd (retryAsync fn maxAttempts delayMs x)))
           = map (\<lambda>k. delayMs * k) [1..maxAttempts - 1]"
  using retryAsync_loop_all_fail [of fn e 1 maxAttempts delayMs None "[]" x] assms
  unfolding retryAsync_def by (simp add: attempts_def)

theorem retryAsync_retries_every_failure_witness:
  "(\<forall>x. fst (rejecting (WalletError ''Insufficient balance'' INSUFFICIENT_BALANCE) x)
          = Inl (WalletError ''Insufficient balance'' INSUFFICIENT_BALANCE))
   \<and> (1::int) \<le> 3
   \<and> fst (retryAsync (rejecting (WalletError ''Insufficient balance'' INSUFFICIENT_BALANCE))
            3 1000 0)
       = Inl (Some (WalletError ''Insufficient balance'' INSUFFICIENT_BALANCE))
   \<and> attempts (fst (snd (retryAsync
        (rejecting (WalletError ''Insufficient balance'' INSUFFICIENT_BALANCE)) 3 1000 0))) = 3
   \<and> sleeps (fst (snd (retryAsync
        (rejecting (WalletError ''Insufficient balance'' INSUFFICIENT_BALANCE)) 3 1000 0)))
       = [1000, 2000]"
proof -
  have h1: "\<forall>x. fst (rejecting (WalletError ''Insufficient balance'' INSUFFICIENT_BALANCE) x)
          = Inl (WalletError ''Insufficient balance'' INSUFFICIENT_BALANCE)"
    by (simp add: rejecting_def)
  have h2: "(1::int) \<le> 3" by simp
  show ?thesis
    using retryAsync_retries_every_failure [OF h1 h2, of 1000 0] h1
    by (simp add: upto_rec1)
qed

section \<open>Properties of \<open>sendAndConfirmTransaction\<close>\<close>

lemma retryAsync_loop_invariant:
  "(\<And>x r x'. P x \<Longrightarrow> fn x = (r, x') \<Longrightarrow> P x') \<Longrightarrow> P x \<Longrightarrow>
   P (snd (snd (retryAsync_loop fn maxAttempts delayMs attempt lastError tr x)))"
proof (induction fn maxAttempts delayMs attempt lastError tr x rule: retryAsync_loop.induct)
  case (1 fn maxAttempts delayMs attempt lastError tr x)
  show ?case
  proof (cases "attempt \<le> maxAttempts")
    case False
    then show ?thesis using "1.prems"(2) by (simp add: retryAsync_loop.simps)
  next
    case True
    obtain r x' where fx: "fn x = (r, x')" by (cases "fn x")
    have px': "P x'" using "1.prems" fx by blast
    show ?thesis
    proof (cases r)
      case (Inr v)
      then show ?thesis using True fx px' by (simp add: retryAsync_loop.simps)
    next
      case (Inl err)
      show ?thesis
      proof (cases "attempt < maxAttempts")
        case lt: True
        have "P (snd (snd (retryAsync_loop fn maxAttempts delayMs (attempt + 1) (Some err)
                 (tr @ [Call_fn, Sleep (delayMs * attempt)]) x')))"
          using "1.IH"(1) [OF True fx [symmetric] _ lt "1.prems"(1) px'] Inl by simp
        then show ?thesis
          using True fx Inl lt by (simp add: retryAsync_loop.simps [of fn maxAttempts delayMs attempt])
      next
        case ge: False
        with True have eq: "attempt = maxAttempts" by simp
        show ?thesis
          using retryAsync_loop_last [of fn x err x' maxAttempts delayMs lastError tr] fx Inl px'
          unfolding eq by simp
      qed
    qed
  qed
qed

lemma send_and_confirm_once_fetches:
  "send_and_confirm_once conn tx latest st = (r, st') \<Longrightarrow> fetches (fst st') = fetches (fst st)"
  by (auto simp: send_and_confirm_once_def fetches_def split: prod.splits sum.splits)

lemma retryAsync_send_and_confirm_fetches:
  "fetches (fst (snd (snd (retryAsync (send_and_confirm_once conn tx latest) m d st)))) = fetches (fst st)"
  unfolding retryAsync_def
  by (rule retryAsync_loop_invariant [where P = "\<lambda>s. fetches (fst s) = fetches (fst st)"])
     (simp_all add: send_and_confirm_once_fetches)

lemma sendAndConfirmTransaction_fetches_once:
  "fetches (fst (snd (snd (sendAndConfirmTransaction conn tx signers c)))) = 1"
proof -
  have base: "fetches [GetLatestBlockhash] = 1" by (simp add: fetches_def)
  have retried: "fetches (fst (snd (snd
      (case retryAsync (send_and_confirm_once conn signed latest) 3 1000 ([GetLatestBlockhash], c1) of
         (Inr sig, tr, (rlog, c2)) \<Rightarrow> (Inr sig, tr, rlog, c2)
       | (Inl caught, tr, (rlog, c2)) \<Rightarrow> (Inl (transaction_failed caught), tr, rlog, c2))))) = 1"
    for signed latest c1
  proof -
    obtain r tr rlog c2 where
      run: "retryAsync (send_and_confirm_once conn signed latest) 3 1000 ([GetLatestBlockhash], c1)
              = (r, tr, rlog, c2)"
      by (metis prod_cases4)
    have "fetches rlog = 1"
      using retryAsync_send_and_confirm_fetches [of conn signed latest 3 1000 "([GetLatestBlockhash], c1)"]
      by (simp add: run base)
    then show ?thesis
      by (cases r) (simp_all add: run)
  qed
  show ?thesis
    unfolding sendAndConfirmTransaction_def
    by (simp add: base retried split: prod.split sum.split list.split)
qed


lemma mock_run:
  "sendAndConfirmTransaction mock_web3 mock_tx [''payer''] mock_start =
     (Inr ''ss'', [Call_fn, Sleep 1000, Call_fn],
      [GetLatestBlockhash,
       SendRawTransaction [1, 5], ConfirmTransaction ''ss'' ''h'' 100,
       SendRawTransaction [1, 5], ConfirmTransaction ''ss'' ''h'' 100],
      \<lparr>handed_out = 1, confirms_seen = 2\<rparr>)"
  by (simp add: sendAndConfirmTransaction_def mock_web3_def mock_tx_def mock_start_def
        mock_getLatestBlockhash_def mock_partialSign_def retryAsync_def retryAsync_loop.simps
        send_and_confirm_once_def mock_serialize_def mock_sendRawTransaction_def
        mock_confirmTransaction_def)

text \<open>
  C2, as stated, fails. Against a connection whose first confirmation reports that the
  block reference has expired and whose later confirmations succeed,
  \<open>sendAndConfirmTransaction\<close> resolves with a signature, but it has fetched the block
  reference once, not twice: the retry re-sends the transaction serialized against the
  first block reference.
\<close>

theorem sendAndConfirmTransaction_two_fetches_counterexample:
  "fst (sendAndConfirmTransaction mock_web3 mock_tx [''payer''] mock_start) = Inr ''ss''
   \<and> fetches (fst (snd (snd (sendAndConfirmTransaction mock_web3 mock_tx [''payer''] mock_start))))
       \<noteq> 2
   \<and> handed_out (snd (snd (snd (sendAndConfirmTransaction mock_web3 mock_tx [''payer''] mock_start))))
       = 1"
  by (simp add: mock_run fetches_def)

text \<open>
  C2, amended. \<open>sendAndConfirmTransaction\<close> fetches the block reference once, before the
  retry loop. When the confirmation of the first attempt fails (for instance because the
  block reference expired) and the send and the confirmation of the second attempt succeed,
  it sleeps 1000 ms once, sends the same serialized bytes again, confirms against the same
  block reference and resolves with the second signature; the log holds exactly one
  block-reference fetch.
\<close>

theorem sendAndConfirmTransaction_resubmits_same_bytes:
  assumes fetch: "getLatestBlockhash conn c = (Inr latest, c1)"
    and signers: "signers = s0 # rest"
    and signed: "partialSign_all conn signers
                   (tx\<lparr>recentBlockhash := Some (blockhash latest), feePayer := Some s0\<rparr>) = Inr signed"
    and raw: "serialize conn signed = Inr raw"
    and send1: "sendRawTransaction conn raw c1 = (Inr sig1, c2)"
    and confirm1: "confirmTransaction conn sig1 (blockhash latest) (lastValidBlockHeight latest) c2
                     = (Inl expired, c3)"
    and send2: "sendRawTransaction conn raw c3 = (Inr sig2, c4)"
    and confirm2: "confirmTransaction conn sig2 (blockhash latest) (lastValidBlockHeight latest) c4
                     = (Inr (), c5)"
  shows "sendAndConfirmTransaction conn tx signers c =
           (Inr sig2, [Call_fn, Sleep 1000, Call_fn],
            [GetLatestBlockhash,
             SendRawTransaction raw,
             ConfirmTransaction sig1 (blockhash latest) (lastValidBlockHeight latest),
             SendRawTransaction raw,
             ConfirmTransaction sig2 (blockhash latest) (lastValidBlockHeight latest)], c5)
       \<and> fetches (fst (snd (snd (sendAndConfirmTransaction conn tx signers c)))) = 1"
proof -
  let ?fn = "send_and_confirm_once conn signed latest"
  let ?C1 = "ConfirmTransaction sig1 (blockhash latest) (lastValidBlockHeight latest)"
  let ?C2 = "ConfirmTransaction sig2 (blockhash latest) (lastValidBlockHeight latest)"
  have a1: "?fn ([GetLatestBlockhash], c1)
              = (Inl expired, ([GetLatestBlockhash, SendRawTransaction raw, ?C1], c3))"
    by (simp add: send_and_confirm_once_def raw send1 confirm1)
  have a2: "?fn ([GetLatestBlockhash, SendRawTransaction raw, ?C1], c3)
              = (Inr sig2, ([GetLatestBlockhash, SendRawTransaction raw, ?C1,
                             SendRawTransaction raw, ?C2], c5))"
    by (simp add: send_and_confirm_once_def raw send2 confirm2)
  have "retryAsync ?fn 3 1000 ([GetLatestBlockhash], c1) =
          retryAsync_loop ?fn 3 1000 2 (Some expired) [Call_fn, Sleep 1000]
            ([GetLatestBlockhash, SendRawTransaction raw, ?C1], c3)"
    unfolding retryAsync_def
    using retryAsync_loop_retry [of 1 3 ?fn "([GetLatestBlockhash], c1)" expired _ 1000 None "[]"] a1
    by simp
  also have "\<dots> = (Inr sig2, [Call_fn, Sleep 1000, Call_fn],
                     ([GetLatestBlockhash, SendRawTransaction raw, ?C1,
                       SendRawTransaction raw, ?C2], c5))"
    using retryAsync_loop_success [of 2 3 ?fn _ sig2 _ 1000 "Some expired" "[Call_fn, Sleep 1000]"] a2
    by simp
  finally have run: "retryAsync ?fn 3 1000 ([GetLatestBlockhash], c1) =
      (Inr sig2, [Call_fn, Sleep 1000, Call_fn],
        ([GetLatestBlockhash, SendRawTransaction raw, ?C1, SendRawTransaction raw, ?C2], c5))" .
  have res: "sendAndConfirmTransaction conn tx signers c =
           (Inr sig2, [Call_fn, Sleep 1000, Call_fn],
            [GetLatestBlockhash, SendRawTransaction raw, ?C1, SendRawTransaction raw, ?C2], c5)"
    unfolding sendAndConfirmTransaction_def
    using signed unfolding signers by (simp add: fetch run)
  show ?thesis
    unfolding res by (simp add: fetches_def)
qed


theorem sendAndConfirmTransaction_resubmits_same_bytes_witness:
  "getLatestBlockhash mock_web3 mock_start
     = (Inr \<lparr>blockhash = ''h'', lastValidBlockHeight = 100\<rparr>, \<lparr>handed_out = 1, confirms_seen = 0\<rparr>)
   \<and> partialSign_all mock_web3 [''payer'']
        (mock_tx\<lparr>recentBlockhash := Some ''h'', feePayer := Some ''payer''\<rparr>)
     = Inr \<lparr>instructions = [''transfer''], recentBlockhash = Some ''h'',
            feePayer = Some ''payer'', signatures = [''payer'']\<rparr>
   \<and> serialize mock_web3 \<lparr>instructions = [''transfer''], recentBlockhash = Some ''h'',
            feePayer = Some ''payer'', signatures = [''payer'']\<rparr> = Inr [1, 5]
   \<and> sendRawTransaction mock_web3 [1, 5] \<lparr>handed_out = 1, confirms_seen = 0\<rparr>
     = (Inr ''ss'', \<lparr>handed_out = 1, confirms_seen = 0\<rparr>)
   \<and> confirmTransaction mock_web3 ''ss'' ''h'' 100 \<lparr>handed_out = 1, confirms_seen = 0\<rparr>
     = (Inl (Err ''TransactionExpiredBlockheightExceededError'' ''block height exceeded'' None),
        \<lparr>handed_out = 1, confirms_seen = 1\<rparr>)
   \<and> sendRawTransaction mock_web3 [1, 5] \<lparr>handed_out = 1, confirms_seen = 1\<rparr>
     = (Inr ''ss'', \<lparr>handed_out = 1, confirms_seen = 1\<rparr>)
   \<and> confirmTransaction mock_web3 ''ss'' ''h'' 100 \<lparr>handed_out = 1, confirms_seen = 1\<rparr>
     = (Inr (), \<lparr>handed_out = 1, confirms_seen = 2\<rparr>)
   \<and> sendAndConfirmTransaction mock_web3 mock_tx [''payer''] mock_start =
       (Inr ''ss'', [Call_fn, Sleep 1000, Call_fn],
        [GetLatestBlockhash,
         SendRawTransaction [1, 5], ConfirmTransaction ''ss'' ''h'' 100,
         SendRawTransaction [1, 5], ConfirmTransaction ''ss'' ''h'' 100],
        \<lparr>handed_out = 1, confirms_seen = 2\<rparr>)
   \<and> fetches (fst (snd (snd (sendAndConfirmTransaction mock_web3 mock_tx [''payer''] mock_start))))
       = 1"
proof -
  let ?latest = "\<lparr>blockhash = ''h'', lastValidBlockHeight = 100\<rparr>"
  let ?signed = "\<lparr>instructions = [''transfer''], recentBlockhash = Some ''h'',
            feePayer = Some ''payer'', signatures = [''payer'']\<rparr>"
  have h1: "getLatestBlockhash mock_web3 mock_start
     = (Inr ?latest, \<lparr>handed_out = 1, confirms_seen = 0\<rparr>)"
    by (simp add: mock_web3_def mock_getLatestBlockhash_def mock_start_def)
  have h2: "[''payer''] = ''payer'' # []" by simp
  have h3: "partialSign_all mock_web3 [''payer'']
        (mock_tx\<lparr>recentBlockhash := Some (blockhash ?latest), feePayer := Some ''payer''\<rparr>)
     = Inr ?signed"
    by (simp add: mock_web3_def mock_partialSign_def mock_tx_def)
  have h4: "serialize mock_web3 ?signed = Inr [1, 5]"
    by (simp add: mock_web3_def mock_serialize_def)
  have h5: "sendRawTransaction mock_web3 [1, 5] \<lparr>handed_out = 1, confirms_seen = 0\<rparr>
     = (Inr ''ss'', \<lparr>handed_out = 1, confirms_seen = 0\<rparr>)"
    by (simp add: mock_web3_def mock_sendRawTransaction_def)
  have h6: "confirmTransaction mock_web3 ''ss'' (blockhash ?latest) (lastValidBlockHeight ?latest)
       \<lparr>handed_out = 1, confirms_seen = 0\<rparr>
     = (Inl (Err ''TransactionExpiredBlockheightExceededError'' ''block height exceeded'' None),
        \<lparr>handed_out = 1, confirms_seen = 1\<rparr>)"
    by (simp add: mock_web3_def mock_confirmTransaction_def)
  have h7: "sendRawTransaction mock_web3 [1, 5] \<lparr>handed_out = 1, confirms_seen = 1\<rparr>
     = (Inr ''ss'', \<lparr>handed_out = 1, confirms_seen = 1\<rparr>)"
    by (simp add: mock_web3_def mock_sendRawTransaction_def)
  have h8: "confirmTransaction mock_web3 ''ss'' (blockhash ?latest) (lastValidBlockHeight ?latest)
       \<lparr>handed_out = 1, confirms_seen = 1\<rparr>
     = (Inr (), \<lparr>handed_out = 1, confirms_seen = 2\<rparr>)"
    by (simp add: mock_web3_def mock_confirmTransaction_def)
  show ?thesis
    using sendAndConfirmTransaction_resubmits_same_bytes [OF h1 h2 h3 h4 h5 h6 h7 h8]
      h1 h3 h4 h5 h6 h7 h8
    by (simp add: fetches_def)
qed

section \<open>Properties of token creation\<close>

lemma bit_length_values:
  "bit_length 999999999999 = 40" "bit_length 999999999999000000000 = 70"
  "bit_length (Suc 0) = 1" "bit_length 1000000000 = 30"
  by (simp_all add: bit_length.simps)

lemma round_double_values:
  "round_double 999999999999 = 999999999999"
  "round_double 999999999999000000000 = 999999999999000051712"
  "round_double 1 = 1"
  "round_double 1000000000 = 1000000000"
  by (simp_all add: round_double_def bit_length_values Let_def)

lemma to_double_values:
  "to_double 999999999999 = Some 999999999999"
  "to_double 999999999999000000000 = Some 999999999999000051712"
  "to_double 1 = Some 1"
  "to_double 1000000000 = Some 1000000000"
  by (simp_all add: to_double_def round_double_values)

lemma check_balance_pass: "100000000 \<le> b \<Longrightarrow> check_balance b = Inr ()"
  by (simp add: check_balance_def requiredBalance_def LAMPORTS_PER_SOL_def)


text \<open>
  Where the decimals are given and between 1 and 22, or missing, line 289 of utils.jsx
  computes the exact product.
\<close>

lemma supplyBigInt_exact:
  "1 \<le> d \<Longrightarrow> d \<le> 22 \<Longrightarrow> token_decimals td = Some d \<Longrightarrow>
   supplyBigInt engine td = Inr (token_supply td * 10 ^ d)"
  by (simp add: supplyBigInt_def js_pow10_def or_default_def)

lemma supplyBigInt_default:
  "token_decimals td = None \<Longrightarrow> supplyBigInt engine td = Inr (token_supply td * 10 ^ 9)"
  by (simp add: supplyBigInt_def js_pow10_def or_default_def)

lemma supplyBigInt_unit: "supplyBigInt engine unit_token = Inr 1000000000"
  by (simp add: supplyBigInt_def unit_token_def js_pow10_def or_default_def)

lemma supplyBN_unit: "supplyBN engine unit_token = Inr 1000000000"
  by (simp add: supplyBN_def unit_token_def to_double_values js_pow10_def or_default_def)

lemma supplyBN_large: "supplyBN engine large_token = Inr 999999999999000051712"
  by (simp add: supplyBN_def large_token_def to_double_values js_pow10_def or_default_def)

lemma createToken_unit:
  "createToken rich_env (Some payer) unit_token =
     (Inr \<lparr>mint = ''Mint'', metadata = ''Meta'', tokenAccount = ''Acct'',
           initialSupply = 1000000000, created_decimals = 9\<rparr>,
      [GetBalance ''Payer'', CreateMint ''Payer'' 9,
       GetOrCreateAssociatedTokenAccount ''Mint'' ''Payer'',
       CreateMetadataAccountV3 ''Mint'' ''Unit'' ''UNT'' [],
       MintTo ''Mint'' ''Acct'' 1000000000])"
  by (simp add: createToken_def createToken_body_def rich_env_def payer_def getConstants_def
        check_balance_pass supplyBigInt_unit)
     (simp add: unit_token_def or_default_def)

text \<open>
  C1 does not hold of the code. For a supply of 1 with 0 decimals the claim asks for
  \<open>1 * 10 ^ 0 = 1\<close> base unit, but \<^verbatim>\<open>tokenData.decimals || 9\<close> takes the 0 for a missing
  value: \<open>createToken\<close> of utils.jsx creates the mint with 9 decimals and mints
  \<open>1000000000\<close> base units, and line 81 of meteoraService.js computes the same amount.
  Line 81 also multiplies as doubles: for a supply of \<open>999999999999\<close> with 9 decimals it
  yields \<open>999999999999000051712\<close>, not \<open>999999999999000000000\<close>.
\<close>

theorem createToken_base_units_diverge:
  "createToken rich_env (Some payer) unit_token =
     (Inr \<lparr>mint = ''Mint'', metadata = ''Meta'', tokenAccount = ''Acct'',
           initialSupply = 1000000000, created_decimals = 9\<rparr>,
      [GetBalance ''Payer'', CreateMint ''Payer'' 9,
       GetOrCreateAssociatedTokenAccount ''Mint'' ''Payer'',
       CreateMetadataAccountV3 ''Mint'' ''Unit'' ''UNT'' [],
       MintTo ''Mint'' ''Acct'' 1000000000])
   \<and> supplyBigInt engine unit_token \<noteq> Inr (1 * 10 ^ 0)
   \<and> supplyBN engine unit_token = Inr 1000000000
   \<and> supplyBN engine unit_token \<noteq> Inr (1 * 10 ^ 0)
   \<and> supplyBN engine large_token = Inr 999999999999000051712
   \<and> supplyBN engine large_token \<noteq> Inr (999999999999 * 10 ^ 9)"
  by (simp add: createToken_unit supplyBigInt_unit supplyBN_unit supplyBN_large)







section \<open>Properties of the balance checks\<close>

lemma bit_length_le: "n < 2 ^ k \<Longrightarrow> bit_length n \<le> k"
proof (induction k arbitrary: n)
  case 0
  then show ?case by (simp add: bit_length.simps)
next
  case (Suc k)
  have "n div 2 < 2 ^ k" using Suc.prems by simp
  then have "bit_length (n div 2) \<le> k" by (rule Suc.IH)
  then show ?case by (subst bit_length.simps) simp
qed

lemma round_double_small: "\<bar>n\<bar> < 2 ^ 53 \<Longrightarrow> round_double n = n"
proof -
  assume "\<bar>n\<bar> < 2 ^ 53"
  then have "nat \<bar>n\<bar> < 2 ^ 53"
    by (simp add: nat_less_iff)
  then have "bit_length (nat \<bar>n\<bar>) \<le> 53" by (rule bit_length_le)
  then show ?thesis by (simp add: round_double_def)
qed

lemma to_double_small: "\<bar>n\<bar> < 2 ^ 53 \<Longrightarrow> to_double n = Some n"
proof -
  assume small: "\<bar>n\<bar> < 2 ^ 53"
  have "(2::int) ^ 53 \<le> 2 ^ 1024" by (rule power_increasing) simp_all
  with small have "\<not> 2 ^ 1024 \<le> \<bar>n\<bar>" by linarith
  then show ?thesis using small by (simp add: to_double_def round_double_small)
qed




lemma less_than_number_amount:
  "\<bar>n + 10000000\<bar> < 2 ^ 53 \<Longrightarrow>
   less_than engine sb (requiredSol (Num n)) = (sb < n + 10000000)"
proof -
  assume "\<bar>n + 10000000\<bar> < 2 ^ 53"
  then have "to_double (n + 10000000) = Some (n + 10000000)" by (rule to_double_small)
  then have "less_than engine sb (requiredSol (Num n))
               = (real_of_int sb < real_of_int (n + 10000000))"
    by (simp add: less_than_def requiredSol_def)
  then show ?thesis by (simp only: of_int_less_iff)
qed

lemma digits_value_append:
  "digits_value (s @ t) = foldl (\<lambda>v c. 10 * v + (int (of_char c) - 48)) (digits_value s) t"
  by (simp add: digits_value_def)

lemma digits_value_buffer:
  "digits_value (s @ ''10000000'') = digits_value s * 100000000 + 10000000"
  by (simp add: digits_value_append)

lemma all_digits_buffer: "all_digits s \<Longrightarrow> all_digits (s @ ''10000000'')"
  by (simp add: all_digits_def is_digit_def)

lemma less_than_digit_string:
  "all_digits s \<Longrightarrow> length s \<le> 12 \<Longrightarrow>
   less_than engine sb (requiredSol (Str s))
     = (sb < round_double (digits_value s * 100000000 + 10000000))"
  by (simp add: less_than_def requiredSol_def to_number_def all_digits_buffer
        digits_value_buffer)

lemma digit_strings:
  "all_digits ''50''" "digits_value ''50'' = 50"
  "all_digits ''1''" "digits_value ''1'' = 1"
  "all_digits ''1000000000''" "digits_value ''1000000000'' = 1000000000"
  by (simp_all add: all_digits_def is_digit_def digits_value_def)


lemma retryAsync_scripted_first:
  "retryAsync scripted 3 1000 (Inr v # rest) = (Inr v, [Call_fn], rest)"
  unfolding retryAsync_def
  using retryAsync_loop_success [of 1 3 scripted "Inr v # rest" v rest 1000 None "[]"]
  by (simp add: scripted_def)

lemma addLiquidity_once_converted: "addLiquidity_once (Inr t) (Inr s) = scripted"
  by (rule ext) (simp add: addLiquidity_once_def)


lemma addPoolLiquidity_low_sol:
  assumes "loadPool_script env = Inr m # rest" and "liquidityAccount_outcome env = Inr acct"
    and "tokenBalance_outcome env = Inr tb"
    and "to_bigint (engine_BigInt env) tokenAmount = Inr ta" and "ta \<le> tb"
    and "solBalance_outcome env = Inr sb"
    and "less_than (engine_Number env) sb (requiredSol solAmount)"
  shows "addPoolLiquidity env (Some \<lparr>publicKey = Some pk\<rparr>) pool tokenAmount solAmount =
     (Inl (WalletError ''Failed to add liquidity: Insufficient SOL balance'' TRANSACTION_FAILED),
      [LoadPool pool, GetLiquidityAccount m pk, GetTokenAccountBalance acct, GetSolBalance pk])"
  using assms
  by (simp add: addPoolLiquidity_def addPoolLiquidity_body_def retryAsync_scripted_first
        check_token_balance_def check_sol_balance_def liquidity_failed_def Error_def)

text \<open>
  The end-to-end scenario of the specification, with numbers: 100 base units of the token
  and 5 SOL against a token amount of 50 and a SOL amount of 1 SOL.
\<close>

lemma addPoolLiquidity_funded:
  "addPoolLiquidity funded_env (Some payer) ''Pool'' (Num 50) (Num 1000000000) =
     (Inr \<lparr>success = True, liquidity_transaction = ''Tx'', added_tokenAmount = Num 50,
           added_solAmount = Num 1000000000\<rparr>,
      [LoadPool ''Pool'', GetLiquidityAccount ''MintA'' ''Payer'', GetTokenAccountBalance ''AcctA'',
       GetSolBalance ''Payer'', AddLiquidity ''Payer'' 50 1000000000, ConfirmLiquidity ''Tx''])"
  by (simp add: addPoolLiquidity_def addPoolLiquidity_body_def retryAsync_scripted_first
        check_token_balance_def check_sol_balance_def funded_env_def payer_def
        less_than_number_amount to_bigint_def addLiquidity_once_converted addLiquidity_call_def)

text \<open>
  The same amounts as the liquidity form passes them, as strings. The SOL requirement is
  then read from \<^verbatim>\<open>'1000000000' + 10000000 = '100000000010000000'\<close>, and 5 SOL do not
  meet it.
\<close>

lemma bit_length_concatenated: "bit_length 100000000010000000 = 57"
  by (simp add: bit_length.simps)

lemma round_double_concatenated: "round_double 100000000010000000 = 100000000010000000"
  by (simp add: round_double_def bit_length_concatenated Let_def)

lemma addPoolLiquidity_form_strings:
  "addPoolLiquidity funded_env (Some payer) ''Pool'' (Str ''50'') (Str ''1000000000'') =
     (Inl (WalletError ''Failed to add liquidity: Insufficient SOL balance'' TRANSACTION_FAILED),
      [LoadPool ''Pool'', GetLiquidityAccount ''MintA'' ''Payer'', GetTokenAccountBalance ''AcctA'',
       GetSolBalance ''Payer''])"
proof -
  have "less_than (engine_Number funded_env) 5000000000 (requiredSol (Str ''1000000000''))"
    using less_than_digit_string [of "''1000000000''" "engine_Number funded_env" 5000000000]
    by (simp add: digit_strings round_double_concatenated)
  then show ?thesis
    using addPoolLiquidity_low_sol [of funded_env "''MintA''" "[]" "''AcctA''" 100
        "Str ''50''" 50 5000000000 "Str ''1000000000''" "''Payer''" "''Pool''"]
    by (simp add: funded_env_def payer_def to_bigint_def digit_strings)
qed






section \<open>Properties of pool creation\<close>

lemma validate_initialPrice_rejects:
  "\<forall>p. price = Some p \<longrightarrow> p \<le> 0 \<Longrightarrow>
   validate_initialPrice price = Inl (Error ''Initial price must be greater than 0'')"
  by (cases price) (auto simp: validate_initialPrice_def)

lemma createMeteoraPool_zero_price:
  "createMeteoraPool market_env (Some payer) ''Mint'' zero_price =
     (Inl (WalletError ''Failed to create pool: Initial price must be greater than 0''
             POOL_CREATION_FAILED), [LoadMarket])"
  by (simp add: createMeteoraPool_def createMeteoraPool_body_def market_env_def payer_def
        zero_price_def getConstants_def validate_initialPrice_def pool_creation_failed_def
        Error_def)

text \<open>
  C5, as stated, fails. With an initial price of 0, a connected wallet and a reachable
  market, \<open>createMeteoraPool\<close> fails with the code \<open>POOL_CREATION_FAILED\<close>, not
  \<open>INVALID_INPUT\<close>, and it has loaded the market (a network call) before looking at the
  price.
\<close>

theorem createMeteoraPool_invalid_input_counterexample:
  "createMeteoraPool market_env (Some payer) ''Mint'' zero_price =
     (Inl (WalletError ''Failed to create pool: Initial price must be greater than 0''
             POOL_CREATION_FAILED), [LoadMarket])
   \<and> code (WalletError ''Failed to create pool: Initial price must be greater than 0''
             POOL_CREATION_FAILED) \<noteq> Some ''INVALID_INPUT''
   \<and> snd (createMeteoraPool market_env (Some payer) ''Mint'' zero_price) \<noteq> []"
  by (simp add: createMeteoraPool_zero_price WalletError_def POOL_CREATION_FAILED_def)

text \<open>
  C5, amended. With a connected wallet and an initial price that is missing, zero or
  negative, \<open>createMeteoraPool\<close> fails with a \<open>WalletError\<close> of code
  \<open>POOL_CREATION_FAILED\<close>. The price is validated after the market has been loaded, so
  the market load is the one call that may precede the failure; \<^verbatim>\<open>market.createPool\<close> and
  \<^verbatim>\<open>confirmTransaction\<close> are never called. When the constants and the market load
  succeed, the message is that of the price validation.
\<close>

theorem createMeteoraPool_rejects_nonpositive_price:
  assumes "\<forall>p. initialPrice cfg = Some p \<longrightarrow> p \<le> 0"
  shows "(\<exists>e. fst (createMeteoraPool env (Some \<lparr>publicKey = Some pk\<rparr>) tokenMint cfg) = Inl e
            \<and> code e = Some POOL_CREATION_FAILED)
       \<and> (snd (createMeteoraPool env (Some \<lparr>publicKey = Some pk\<rparr>) tokenMint cfg) = []
            \<or> snd (createMeteoraPool env (Some \<lparr>publicKey = Some pk\<rparr>) tokenMint cfg)
                 = [LoadMarket])
       \<and> (constants_valid env \<and> loadMarket_outcome env = Inr () \<longrightarrow>
            createMeteoraPool env (Some \<lparr>publicKey = Some pk\<rparr>) tokenMint cfg =
              (Inl (WalletError ''Failed to create pool: Initial price must be greater than 0''
                      POOL_CREATION_FAILED), [LoadMarket]))"
  using validate_initialPrice_rejects [OF assms]
  by (auto simp: createMeteoraPool_def createMeteoraPool_body_def getConstants_def
        pool_creation_failed_def WalletError_def Error_def split: sum.splits)

theorem createMeteoraPool_rejects_nonpositive_price_witness:
  "initialPrice zero_price = Some 0 \<and> (0::real) \<le> 0
   \<and> constants_valid market_env \<and> loadMarket_outcome market_env = Inr ()
   \<and> createMeteoraPool market_env (Some \<lparr>publicKey = Some ''Payer''\<rparr>) ''Mint'' zero_price =
        (Inl (WalletError ''Failed to create pool: Initial price must be greater than 0''
                POOL_CREATION_FAILED), [LoadMarket])"
proof -
  have h: "\<forall>p. initialPrice zero_price = Some p \<longrightarrow> p \<le> 0"
    by (simp add: zero_price_def)
  have e: "constants_valid market_env \<and> loadMarket_outcome market_env = Inr ()"
    by (simp add: market_env_def)
  show ?thesis
    using createMeteoraPool_rejects_nonpositive_price [OF h, of market_env "''Payer''" "''Mint''"] e
    by (simp add: zero_price_def)
qed

section \<open>Properties of the market statistics\<close>

lemma kept_stats:
  "map the (filter (\<lambda>stats. stats \<noteq> None) (map pool_stats_or_null pools)) =
   map (\<lambda>p. stats_of (pool_address p) (projr (getPoolState_outcome p)))
     (filter (\<lambda>p. \<not> isl (getPoolState_outcome p)) pools)"
proof (induction pools)
  case Nil
  show ?case by simp
next
  case (Cons p pools)
  show ?case
  proof (cases "getPoolState_outcome p")
    case (Inl e)
    then show ?thesis using Cons.IH by (simp add: pool_stats_or_null_def)
  next
    case (Inr st)
    then show ?thesis using Cons.IH by (simp add: pool_stats_or_null_def)
  qed
qed

text \<open>
  C7. Once the market and its list of pools have been obtained, \<open>getMarketStats\<close> resolves
  (it does not throw) with the statistics of exactly the pools whose state could be read,
  in the order of the list: a pool whose read throws is left out. The statistics of a pool
  are its address and the two mints, the current price, the 24-hour volume, the value
  locked, the fee and the reward rate of the state that was read. So the addresses in the
  result are the addresses of the readable pools, in their original order.
\<close>

theorem getMarketStats_keeps_readable_pools:
  assumes "statsMarket_outcome env = Inr market" and "getAllPools_outcome env = Inr pools"
  shows "getMarketStats env =
           Inr (map (\<lambda>p. \<lparr>stats_address = pool_address p,
                          stats_tokenMintA = state_tokenMintA (projr (getPoolState_outcome p)),
                          stats_tokenMintB = state_tokenMintB (projr (getPoolState_outcome p)),
                          stats_price = state_currentPrice (projr (getPoolState_outcome p)),
                          stats_volume24h = state_volume24h (projr (getPoolState_outcome p)),
                          stats_tvl = state_tvl (projr (getPoolState_outcome p)),
                          stats_fee = state_fee (projr (getPoolState_outcome p)),
                          stats_rewardRate = state_rewardRate (projr (getPoolState_outcome p))\<rparr>)
                  (filter (\<lambda>p. \<not> isl (getPoolState_outcome p)) pools))
       \<and> (\<forall>stats. getMarketStats env = Inr stats \<longrightarrow>
             map stats_address stats
               = map pool_address (filter (\<lambda>p. \<not> isl (getPoolState_outcome p)) pools))"
proof -
  have run: "getMarketStats env =
           Inr (map (\<lambda>p. stats_of (pool_address p) (projr (getPoolState_outcome p)))
                  (filter (\<lambda>p. \<not> isl (getPoolState_outcome p)) pools))"
    unfolding getMarketStats_def kept_stats using assms by simp
  show ?thesis
    unfolding run by (simp add: stats_of_def comp_def)
qed

theorem getMarketStats_keeps_readable_pools_witness:
  "statsMarket_outcome three_pools = Inr ()
   \<and> getAllPools_outcome three_pools = Inr [pool_A, pool_B, pool_C]
   \<and> \<not> isl (getPoolState_outcome pool_A) \<and> isl (getPoolState_outcome pool_B)
   \<and> \<not> isl (getPoolState_outcome pool_C)
   \<and> getMarketStats three_pools =
        Inr [\<lparr>stats_address = ''A'', stats_tokenMintA = ''MintA'', stats_tokenMintB = ''SOL'',
              stats_price = 2, stats_volume24h = 10, stats_tvl = 100, stats_fee = 3,
              stats_rewardRate = 1\<rparr>,
             \<lparr>stats_address = ''C'', stats_tokenMintA = ''MintC'', stats_tokenMintB = ''SOL'',
              stats_price = 5, stats_volume24h = 20, stats_tvl = 200, stats_fee = 3,
              stats_rewardRate = 0\<rparr>]"
proof -
  have h1: "statsMarket_outcome three_pools = Inr ()"
    and h2: "getAllPools_outcome three_pools = Inr [pool_A, pool_B, pool_C]"
    by (simp_all add: three_pools_def)
  show ?thesis
    using getMarketStats_keeps_readable_pools [OF h1 h2] h1 h2
    by (simp add: pool_A_def pool_B_def pool_C_def state_A_def state_C_def)
qed


section \<open>Properties of the trade history\<close>

text \<open>\<open>getTradeHistory\<close> hands the trades on in the order in which the pool reports them.\<close>

lemma getTradeHistory_keeps_order:
  "getTradeHistory load_outcome history startTime = Inr result \<Longrightarrow>
   \<exists>trades. history startTime = Inr trades \<and> map timestamp result = map timestamp trades"
  by (auto simp: getTradeHistory_def getPool_def copy_trade_def comp_def split: sum.splits)

lemma sorted_chartData: "sorted (map point_time (chartData trades))"
  by (simp add: chartData_def)

text \<open>
  C8 does not hold of the code. \<open>getTradeHistory\<close> copies the trades without sorting them:
  for a pool that reports a trade at time 2000 before a trade at time 1000, the result is
  in that order, which is not ascending. The chart of components.jsx sorts the same data
  ascending by time.
\<close>

theorem getTradeHistory_unsorted:
  "getTradeHistory (Inr ()) newest_first 0 = Inr [late_trade, early_trade]
   \<and> map timestamp [late_trade, early_trade] = [2000, 1000]
   \<and> \<not> sorted (map timestamp [late_trade, early_trade])
   \<and> map point_time (chartData [late_trade, early_trade]) = [1000, 2000]"
  by (simp add: getTradeHistory_def getPool_def newest_first_def late_trade_def early_trade_def
        copy_trade_def chartData_def chart_point_of_def)

section \<open>Properties of the form validation\<close>

text \<open>
  The validation turns 0 decimals down, under a message that allows them. For the decimals
  it lets through, 1 to 9, line 289 of utils.jsx computes the exact amount.
\<close>

lemma validate_decimals_zero:
  "validate_decimals (Some 0) = Some ''Decimals must be between 0 and 9''"
  by (simp add: validate_decimals_def)

lemma validated_supplyBigInt_exact:
  assumes "validate_decimals (token_decimals td) = None"
  shows "\<exists>d. token_decimals td = Some d \<and> 1 \<le> d \<and> d \<le> 9
             \<and> supplyBigInt engine td = Inr (token_supply td * 10 ^ d)"
proof (cases "token_decimals td")
  case None
  with assms show ?thesis by (simp add: validate_decimals_def)
next
  case (Some d)
  with assms have range: "1 \<le> d" "d \<le> 9"
    by (simp_all add: validate_decimals_def split: if_splits)
  then have "supplyBigInt engine td = Inr (token_supply td * 10 ^ d)"
    using Some by (simp add: supplyBigInt_exact)
  with Some range show ?thesis by simp
qed

end
